theory Spec2Isabelle
  imports Complex_Main "HOL-Library.Char_ord" "HOL-Library.List_Lexorder"
    "HOL-Library.Product_Lexorder" "HOL-Library.Log_Nat" "HOL-Library.Multiset"
begin

section \<open>The sales table\<close>

text \<open>
  The script \<^verbatim>\<open>Business_reporting_tool.py\<close> reads a CSV file into a pandas
  DataFrame, which is the only data structure it works on. A cell of the table is a
  number, a parsed date, a piece of text, or a missing value: \<open>NaN\<close> in a numeric or
  text column, \<open>NaT\<close> in a date column. A number is the exact rational it stands for,
  and the arithmetic of this section and the two after it is exact: that is what pandas
  computes for the differences and the sums of columns of whole numbers (short of
  the overflow of \<^verbatim>\<open>int64\<close>), and an idealisation for the quotient and its
  rounding. The arithmetic of \<^verbatim>\<open>float64\<close>, which rounds, has a section of its own
  below. A date is its position on the time line.
\<close>

datatype cell = Num rat | NaN | Date int | NaT | Str string

text \<open>
  A DataFrame is its columns in order, each a name with the values of the rows in
  order. \<^verbatim>\<open>read_csv\<close> makes the names distinct and the columns equally long.
\<close>

type_synonym frame = "(string \<times> cell list) list"

definition columns :: "frame \<Rightarrow> string list" where
  "columns df = map fst df"

definition wf_frame :: "frame \<Rightarrow> bool" where
  "wf_frame df \<longleftrightarrow>
     distinct (columns df) \<and> list_all (\<lambda>c. length (snd c) = length (snd (hd df))) df"

text \<open>The exception classes the script tells apart or can meet, each with its message.\<close>

datatype exn_class =
  FileNotFoundError | JSONDecodeError | ParserError | KeyError | TypeError
  | ZeroDivisionError | FileExistsError | OSError

datatype exn = Exn exn_class string

fun exn_cls :: "exn \<Rightarrow> exn_class" where
  "exn_cls (Exn c m) = c"

fun exn_msg :: "exn \<Rightarrow> string" where
  "exn_msg (Exn c m) = m"

text \<open>
  A statement that raises ends the enclosing \<^verbatim>\<open>try\<close> block: the statements after it
  do not run.
\<close>

definition and_then :: "exn + 'a \<Rightarrow> ('a \<Rightarrow> exn + 'b) \<Rightarrow> exn + 'b" where
  "and_then m f = (case m of Inl e \<Rightarrow> Inl e | Inr x \<Rightarrow> f x)"

text \<open>\<^verbatim>\<open>df[name]\<close>: the column, or \<^verbatim>\<open>KeyError\<close> when no column has the name.\<close>

definition getitem :: "frame \<Rightarrow> string \<Rightarrow> exn + cell list" where
  "getitem df name =
     (case map_of df name of None \<Rightarrow> Inl (Exn KeyError name) | Some vs \<Rightarrow> Inr vs)"

text \<open>
  \<^verbatim>\<open>df[name] = vs\<close>: a column of that name is replaced where it stands, otherwise
  the new column is appended after the last one.
\<close>

fun setitem :: "frame \<Rightarrow> string \<Rightarrow> cell list \<Rightarrow> frame" where
  "setitem [] name vs = [(name, vs)]"
| "setitem ((n, c) # df) name vs =
     (if n = name then (name, vs) # df else (n, c) # setitem df name vs)"

text \<open>
  The difference of two cells, as \<^verbatim>\<open>revenue - cost\<close> computes it row by row: a missing
  operand gives a missing result, and a date or a text as an operand raises
  \<^verbatim>\<open>TypeError\<close> (a loaded table has one date column at most, so two dates never
  meet). The two columns of a DataFrame are equally long. Types are those of the
  cells: a column with no rows has none, and its difference is the empty column.
\<close>

fun sub_cell :: "cell \<Rightarrow> cell \<Rightarrow> exn + cell" where
  "sub_cell (Num a) (Num b) = Inr (Num (a - b))"
| "sub_cell (Num a) NaN = Inr NaN"
| "sub_cell NaN (Num b) = Inr NaN"
| "sub_cell NaN NaN = Inr NaN"
| "sub_cell a b = Inl (Exn TypeError ''unsupported operand type(s) for -'')"

fun sub_col :: "cell list \<Rightarrow> cell list \<Rightarrow> exn + cell list" where
  "sub_col (a # as) (b # bs) =
     (case sub_cell a b of
        Inl e \<Rightarrow> Inl e
      | Inr c \<Rightarrow> (case sub_col as bs of Inl e \<Rightarrow> Inl e | Inr cs \<Rightarrow> Inr (c # cs)))"
| "sub_col as bs = Inr []"

text \<open>
  \<^verbatim>\<open>Series.sum()\<close>: the sum of the numbers of a column. Missing values are skipped
  (\<^verbatim>\<open>skipna=True\<close> is the default), and the sum of no number is 0. The script sums
  columns that have passed the subtraction, which hold numbers and missing values
  only; on a date or a text, which it never sums, the model raises \<^verbatim>\<open>TypeError\<close>.
\<close>

fun col_sum :: "cell list \<Rightarrow> exn + rat" where
  "col_sum [] = Inr 0"
| "col_sum (Num a # cs) = (case col_sum cs of Inl e \<Rightarrow> Inl e | Inr s \<Rightarrow> Inr (a + s))"
| "col_sum (NaN # cs) = col_sum cs"
| "col_sum (c # cs) = Inl (Exn TypeError ''unsupported operand type(s) for +'')"

text \<open>
  True division. Python raises \<^verbatim>\<open>ZeroDivisionError\<close> on a zero divisor (a numpy
  scalar gives \<open>inf\<close> or \<open>nan\<close> with a warning instead; the model takes the
  stricter of the two, so that a division by zero cannot pass unseen).
\<close>

definition truediv :: "rat \<Rightarrow> rat \<Rightarrow> exn + rat" where
  "truediv a b = (if b = 0 then Inl (Exn ZeroDivisionError ''division by zero'') else Inr (a / b))"

text \<open>
  \<^verbatim>\<open>round(x, ndigits)\<close> on exact values: the nearest multiple of \<open>10\<^sup>-\<^sup>n\<close>,
  a tie going to the even neighbour. What \<^verbatim>\<open>round\<close> does on a float64 is
  \<open>np_round\<close> below.
\<close>

definition round_half_even :: "rat \<Rightarrow> int" where
  "round_half_even x =
     (let f = \<lfloor>x\<rfloor>; d = x - of_int f
      in if d < 1 / 2 then f else if 1 / 2 < d then f + 1 else if even f then f else f + 1)"

definition py_round :: "rat \<Rightarrow> nat \<Rightarrow> rat" where
  "py_round x ndigits = of_int (round_half_even (x * 10 ^ ndigits)) / 10 ^ ndigits"

section \<open>The metrics (lines 57 to 76)\<close>

type_synonym summary = "(string \<times> rat) list"

record metrics =
  table :: frame
  total_revenue :: rat
  total_cost :: rat
  total_profit :: rat
  profit_margin :: rat
  summary_of :: summary

definition aggregate :: "frame \<Rightarrow> exn + metrics" where
  "aggregate df =
     and_then (getitem df ''revenue'') (\<lambda>revenue.
     and_then (getitem df ''cost'') (\<lambda>cost.
     and_then (sub_col revenue cost) (\<lambda>profit.
     let df1 = setitem df ''profit'' profit in
     and_then (getitem df1 ''revenue'') (\<lambda>revenue1.
     and_then (col_sum revenue1) (\<lambda>tr.
     and_then (getitem df1 ''cost'') (\<lambda>cost1.
     and_then (col_sum cost1) (\<lambda>tc.
     and_then (getitem df1 ''profit'') (\<lambda>profit1.
     and_then (col_sum profit1) (\<lambda>tp.
     and_then (if tr \<noteq> 0 then truediv tp tr else Inr 0) (\<lambda>pm.
     Inr \<lparr> table = df1, total_revenue = tr, total_cost = tc, total_profit = tp,
           profit_margin = pm,
           summary_of =
             [(''Total Revenue'', tr), (''Total Cost'', tc), (''Total Profit'', tp),
              (''Profit Margin (%)'', py_round (pm * 100) 2)] \<rparr>))))))))))"

section \<open>The daily revenue (line 89)\<close>

text \<open>
  \<^verbatim>\<open>df.groupby(DATE_COLUMN)["revenue"].sum()\<close> drops the rows whose key is missing
  (\<^verbatim>\<open>dropna=True\<close>), adds up the revenue of the rows of each key, a missing revenue
  counting for nothing, and orders the keys ascending (\<^verbatim>\<open>sort=True\<close>). Numbers are
  ordered by value, dates by time, texts lexicographically. A loaded column holds cells
  of one kind, so the order between the kinds (numbers, then dates, then texts) is not
  observed.
\<close>

fun missing :: "cell \<Rightarrow> bool" where
  "missing NaN = True"
| "missing NaT = True"
| "missing c = False"

fun cell_key :: "cell \<Rightarrow> nat \<times> rat \<times> int \<times> string" where
  "cell_key (Num a) = (0, a, 0, [])"
| "cell_key (Date d) = (1, 0, d, [])"
| "cell_key (Str s) = (2, 0, 0, s)"
| "cell_key NaN = (3, 0, 0, [])"
| "cell_key NaT = (4, 0, 0, [])"

type_synonym series = "(cell \<times> rat) list"

text \<open>The running sums, kept in key order: a row joins its group or opens a new one.\<close>

fun upsert :: "cell \<Rightarrow> rat \<Rightarrow> series \<Rightarrow> series" where
  "upsert k v [] = [(k, v)]"
| "upsert k v ((k', s) # acc) =
     (if k = k' then (k', s + v) # acc
      else if cell_key k < cell_key k' then (k, v) # (k', s) # acc
      else (k', s) # upsert k v acc)"

fun group_sum :: "(cell \<times> rat) list \<Rightarrow> series \<Rightarrow> series" where
  "group_sum [] acc = acc"
| "group_sum ((k, v) # rows) acc =
     group_sum rows (if missing k then acc else upsert k v acc)"

text \<open>
  The numbers a sum adds up: a missing value counts as 0. A column with a date or a
  text in it is not summed (in the script the revenue column has passed the
  subtraction before it is grouped, so it holds numbers and missing values only).
\<close>

fun summands :: "cell list \<Rightarrow> exn + rat list" where
  "summands [] = Inr []"
| "summands (Num a # cs) = (case summands cs of Inl e \<Rightarrow> Inl e | Inr vs \<Rightarrow> Inr (a # vs))"
| "summands (NaN # cs) = (case summands cs of Inl e \<Rightarrow> Inl e | Inr vs \<Rightarrow> Inr (0 # vs))"
| "summands (c # cs) = Inl (Exn TypeError ''unsupported operand type(s) for +'')"

definition daily_revenue :: "frame \<Rightarrow> string \<Rightarrow> exn + series" where
  "daily_revenue df date_column =
     and_then (getitem df date_column) (\<lambda>keys.
     and_then (getitem df ''revenue'') (\<lambda>revenue.
     and_then (summands revenue) (\<lambda>vs.
     Inr (group_sum (zip keys vs) []))))"

section \<open>The metrics in float64 arithmetic\<close>

text \<open>
  The metrics above are computed on exact numbers. pandas computes a column of dtype
  \<^verbatim>\<open>float64\<close> in IEEE 754 binary64 arithmetic: every operation gives the float64
  nearest to its exact result, a tie going to the neighbour with the even last bit.
  This section gives lines 58 to 76 once more with that rounding written out. A
  float64 is modelled by its exact value, a rational number. The definitions above are
  the ones below with the rounding left out: the two agree on every table on which no
  operation rounds.
\<close>

text \<open>The binary exponent of a number other than 0: \<open>2\<^sup>e \<le> |x| < 2\<^sup>e\<^sup>+\<^sup>1\<close>.\<close>

definition expo :: "rat \<Rightarrow> int" where
  "expo x =
     (let (p, q) = quotient_of \<bar>x\<bar>; d = bitlen p - bitlen q
      in if 2 powi d \<le> \<bar>x\<bar> then d else d - 1)"

text \<open>
  The float64 nearest to a number: 53 significant bits, ties to even. The exponent is
  not bounded: the infinities (a result of magnitude \<open>2\<^sup>1\<^sup>0\<^sup>2\<^sup>4\<close> or more) and the
  subnormal numbers (below \<open>2\<^sup>-\<^sup>1\<^sup>0\<^sup>2\<^sup>2\<close>) are outside the model.
\<close>

definition rnd64 :: "rat \<Rightarrow> rat" where
  "rnd64 x =
     (if x = 0 then 0
      else let ulp = 2 powi (expo x - 52) in of_int (round_half_even (x / ulp)) * ulp)"

text \<open>
  \<^verbatim>\<open>round(x, decimals)\<close> on a numpy float64, which is what the quotient of two sums
  is: numpy multiplies by \<open>10\<^sup>d\<close>, rounds to the nearest integer (ties to even) and
  divides by \<open>10\<^sup>d\<close>, each step in float64.
\<close>

definition np_round :: "rat \<Rightarrow> nat \<Rightarrow> rat" where
  "np_round x decimals =
     rnd64 (of_int (round_half_even (rnd64 (x * 10 ^ decimals))) / 10 ^ decimals)"


text \<open>
  \<^verbatim>\<open>Series.sum()\<close> adds the numbers of the column two at a time and rounds after
  every addition, so that its result depends on the order of the additions (numpy adds
  in blocks and pairwise, not from left to right). An order of additions is a tree with
  the numbers at its leaves; \<open>plan\<close> gives the tree for the numbers of a column, and
  \<open>any_order plan\<close> says that it adds each of them once. \<open>in_order\<close> adds from left to
  right, as numpy does for fewer than eight numbers.
\<close>

datatype sumtree = Leaf rat | Node sumtree sumtree

fun leaves :: "sumtree \<Rightarrow> rat list" where
  "leaves (Leaf x) = [x]"
| "leaves (Node a b) = leaves a @ leaves b"

fun fl_sum :: "(rat \<Rightarrow> rat) \<Rightarrow> sumtree \<Rightarrow> rat" where
  "fl_sum fl (Leaf x) = x"
| "fl_sum fl (Node a b) = fl (fl_sum fl a + fl_sum fl b)"


definition any_order :: "(rat list \<Rightarrow> sumtree) \<Rightarrow> bool" where
  "any_order plan \<longleftrightarrow> (\<forall>xs. xs \<noteq> [] \<longrightarrow> mset (leaves (plan xs)) = mset xs)"

fun in_order :: "rat list \<Rightarrow> sumtree" where
  "in_order [] = Leaf 0"
| "in_order (x # xs) = foldl (\<lambda>t y. Node t (Leaf y)) (Leaf x) xs"

text \<open>\<^verbatim>\<open>revenue - cost\<close>, row by row, each difference rounded.\<close>

fun sub_cell_fl :: "(rat \<Rightarrow> rat) \<Rightarrow> cell \<Rightarrow> cell \<Rightarrow> exn + cell" where
  "sub_cell_fl fl (Num a) (Num b) = Inr (Num (fl (a - b)))"
| "sub_cell_fl fl (Num a) NaN = Inr NaN"
| "sub_cell_fl fl NaN (Num b) = Inr NaN"
| "sub_cell_fl fl NaN NaN = Inr NaN"
| "sub_cell_fl fl a b = Inl (Exn TypeError ''unsupported operand type(s) for -'')"

fun sub_col_fl :: "(rat \<Rightarrow> rat) \<Rightarrow> cell list \<Rightarrow> cell list \<Rightarrow> exn + cell list" where
  "sub_col_fl fl (a # as) (b # bs) =
     (case sub_cell_fl fl a b of
        Inl e \<Rightarrow> Inl e
      | Inr c \<Rightarrow> (case sub_col_fl fl as bs of Inl e \<Rightarrow> Inl e | Inr cs \<Rightarrow> Inr (c # cs)))"
| "sub_col_fl fl as bs = Inr []"

text \<open>
  The numbers of a column that its sum adds: the missing values are skipped. The sum
  of no number is 0.
\<close>

fun present :: "cell list \<Rightarrow> exn + rat list" where
  "present [] = Inr []"
| "present (Num a # cs) = (case present cs of Inl e \<Rightarrow> Inl e | Inr vs \<Rightarrow> Inr (a # vs))"
| "present (NaN # cs) = present cs"
| "present (c # cs) = Inl (Exn TypeError ''unsupported operand type(s) for +'')"

definition col_sum_fl :: "(rat \<Rightarrow> rat) \<Rightarrow> (rat list \<Rightarrow> sumtree) \<Rightarrow> cell list \<Rightarrow> exn + rat" where
  "col_sum_fl fl plan cs =
     and_then (present cs) (\<lambda>vs. Inr (if vs = [] then 0 else fl_sum fl (plan vs)))"

text \<open>
  The quotient of two sums is a float64 division whatever the columns are: a sum that
  is an integer is converted to float64 first. The product with 100 is a float64
  product.
\<close>

definition truediv64 :: "rat \<Rightarrow> rat \<Rightarrow> exn + rat" where
  "truediv64 a b =
     (if b = 0 then Inl (Exn ZeroDivisionError ''division by zero'')
      else Inr (rnd64 (rnd64 a / rnd64 b)))"

definition aggregate_fl :: "(rat \<Rightarrow> rat) \<Rightarrow> (rat list \<Rightarrow> sumtree) \<Rightarrow> frame \<Rightarrow> exn + metrics" where
  "aggregate_fl fl plan df =
     and_then (getitem df ''revenue'') (\<lambda>revenue.
     and_then (getitem df ''cost'') (\<lambda>cost.
     and_then (sub_col_fl fl revenue cost) (\<lambda>profit.
     let df1 = setitem df ''profit'' profit in
     and_then (getitem df1 ''revenue'') (\<lambda>revenue1.
     and_then (col_sum_fl fl plan revenue1) (\<lambda>tr.
     and_then (getitem df1 ''cost'') (\<lambda>cost1.
     and_then (col_sum_fl fl plan cost1) (\<lambda>tc.
     and_then (getitem df1 ''profit'') (\<lambda>profit1.
     and_then (col_sum_fl fl plan profit1) (\<lambda>tp.
     and_then (if tr \<noteq> 0 then truediv64 tp tr else Inr 0) (\<lambda>pm.
     Inr \<lparr> table = df1, total_revenue = tr, total_cost = tc, total_profit = tp,
           profit_margin = pm,
           summary_of =
             [(''Total Revenue'', tr), (''Total Cost'', tc), (''Total Profit'', tp),
              (''Profit Margin (%)'', np_round (rnd64 (pm * 100)) 2)] \<rparr>))))))))))"

section \<open>The script\<close>

text \<open>
  What the script does to the world, in the order it does it: lines printed, the
  directory made, the log opened and written, the files saved.
\<close>

record figure =
  fig_series :: series
  fig_title :: string
  fig_xlabel :: string
  fig_ylabel :: string

datatype event =
    Print string
  | PrintTable summary
  | MkDir string bool bool
  | BasicConfig string
  | LogInfo string
  | LogError string
  | ToCsv string summary
  | SaveFig string figure
  | ShowFig figure

text \<open>
  A statement has run to its end with a value, has raised an exception, or has called
  \<^verbatim>\<open>sys.exit\<close>. \<^verbatim>\<open>SystemExit\<close> is not an \<^verbatim>\<open>Exception\<close>: no handler of the script
  catches it.
\<close>

datatype 'a res = Ok 'a | Raise exn | SysExit nat

type_synonym 'a stmt = "event list \<times> 'a res"

definition ret :: "'a \<Rightarrow> 'a stmt" where
  "ret x = ([], Ok x)"

definition emit :: "event \<Rightarrow> unit stmt" where
  "emit ev = ([ev], Ok ())"

definition raise :: "exn \<Rightarrow> 'a stmt" where
  "raise e = ([], Raise e)"

definition sys_exit :: "nat \<Rightarrow> 'a stmt" where
  "sys_exit n = ([], SysExit n)"

definition seq :: "'a stmt \<Rightarrow> ('a \<Rightarrow> 'b stmt) \<Rightarrow> 'b stmt" where
  "seq p f =
     (case snd p of
        Ok x \<Rightarrow> (fst p @ fst (f x), snd (f x))
      | Raise e \<Rightarrow> (fst p, Raise e)
      | SysExit n \<Rightarrow> (fst p, SysExit n))"

definition try_except :: "'a stmt \<Rightarrow> (exn \<Rightarrow> 'a stmt) \<Rightarrow> 'a stmt" where
  "try_except p handler =
     (case snd p of
        Raise e \<Rightarrow> (fst p @ fst (handler e), snd (handler e))
      | r \<Rightarrow> p)"

text \<open>A computation on values, inside a block: it returns or raises, with no effect.\<close>

definition eval_in :: "exn + 'a \<Rightarrow> 'a stmt" where
  "eval_in r = (case r of Inl e \<Rightarrow> raise e | Inr x \<Rightarrow> ret x)"

text \<open>
  A call into the world: it raises, or it returns, and then it has had its effect. The
  calls that draw the chart have none that is seen before the chart is saved or shown.
\<close>

definition attempt :: "exn option \<Rightarrow> unit stmt" where
  "attempt fault = (case fault of Some e \<Rightarrow> raise e | None \<Rightarrow> ret ())"

definition call :: "exn option \<Rightarrow> event \<Rightarrow> unit stmt" where
  "call fault ev = seq (attempt fault) (\<lambda>u. emit ev)"

text \<open>
  The world the script runs in decides what its reads return and which of its calls
  fail: the content of \<^verbatim>\<open>config.json\<close> (a JSON object of strings), the table
  \<^verbatim>\<open>read_csv\<close> loads from a path with a date column, the date of the day, and for
  each call that touches the file system or the display the exception it raises, if
  any: \<^verbatim>\<open>Path.mkdir\<close>, \<^verbatim>\<open>logging.basicConfig\<close>, \<^verbatim>\<open>to_csv\<close>, the calls from
  \<^verbatim>\<open>plt.figure\<close> to \<^verbatim>\<open>plt.tight_layout\<close>, \<^verbatim>\<open>plt.savefig\<close> and \<^verbatim>\<open>plt.show\<close>.
\<close>

record env =
  config_json :: "exn + (string \<rightharpoonup> string)"
  mkdir :: "string \<Rightarrow> exn option"
  basic_config :: "string \<Rightarrow> exn option"
  read_csv :: "string \<Rightarrow> string \<Rightarrow> exn + frame"
  today_str :: string
  to_csv :: "string \<Rightarrow> exn option"
  plt_draw :: "exn option"
  plt_savefig :: "string \<Rightarrow> exn option"
  plt_show :: "exn option"

record settings =
  DATA_FILE :: string
  DATE_COLUMN :: string
  LOG_FILE :: string
  PLOT_TITLE :: string
  PLOT_XLABEL :: string
  PLOT_YLABEL :: string
  OUTPUT_DIR :: string

definition config_get :: "(string \<rightharpoonup> string) \<Rightarrow> string \<Rightarrow> string \<Rightarrow> string" where
  "config_get config k d = (case config k of None \<Rightarrow> d | Some v \<Rightarrow> v)"

definition settings_of :: "(string \<rightharpoonup> string) \<Rightarrow> settings" where
  "settings_of config =
     \<lparr> DATA_FILE = config_get config ''data_file'' ''sales_data.csv'',
       DATE_COLUMN = config_get config ''date_column'' ''date'',
       LOG_FILE = config_get config ''log_file'' ''sales_analysis.log'',
       PLOT_TITLE = config_get config ''plot_title'' ''Daily Revenue Trend'',
       PLOT_XLABEL = config_get config ''plot_xlabel'' ''Date'',
       PLOT_YLABEL = config_get config ''plot_ylabel'' ''Revenue'',
       OUTPUT_DIR = config_get config ''output_dir'' ''outputs'' \<rparr>"

text \<open>
  \<^verbatim>\<open>Path(OUTPUT_DIR) / name\<close>, as the text the messages show, on a POSIX
  system: \<^verbatim>\<open>pathlib\<close> drops the empty components and the single dots of the
  directory, keeps one leading slash (two when there are exactly two), and joins what
  is left with slashes. The name the script appends has no slash in it.
\<close>

fun split_path :: "string \<Rightarrow> string list" where
  "split_path [] = [[]]"
| "split_path (c # cs) =
     (if c = CHR ''/'' then [] # split_path cs
      else (case split_path cs of [] \<Rightarrow> [[c]] | p # ps \<Rightarrow> (c # p) # ps))"

definition anchor :: "string \<Rightarrow> string" where
  "anchor dir =
     (if take 2 dir = ''//'' \<and> take 3 dir \<noteq> ''///'' then ''//''
      else if take 1 dir = ''/'' then ''/'' else [])"

definition path_join :: "string \<Rightarrow> string \<Rightarrow> string" where
  "path_join dir name =
     anchor dir @
     concat (map (\<lambda>p. p @ ''/'') (filter (\<lambda>p. p \<noteq> [] \<and> p \<noteq> ''.'') (split_path dir))) @
     name"

definition summary_path :: "settings \<Rightarrow> string \<Rightarrow> string" where
  "summary_path cfg today = path_join (OUTPUT_DIR cfg) (''summary_'' @ today @ ''.csv'')"

definition plot_path :: "settings \<Rightarrow> string \<Rightarrow> string" where
  "plot_path cfg today = path_join (OUTPUT_DIR cfg) (''daily_revenue_'' @ today @ ''.png'')"

definition newline :: string where
  "newline = [CHR 0x0A]"

definition quoted :: "string \<Rightarrow> string" where
  "quoted s = [CHR 0x27] @ s @ [CHR 0x27]"

text \<open>Lines 16 to 24: the configuration is read, or the script ends.\<close>

definition load_config :: "env \<Rightarrow> (string \<rightharpoonup> string) stmt" where
  "load_config env =
     try_except (eval_in (config_json env)) (\<lambda>e.
       if exn_cls e = FileNotFoundError then
         seq (emit (Print (''Configuration file '' @ quoted ''config.json'' @ '' not found.'')))
           (\<lambda>u. sys_exit 1)
       else if exn_cls e = JSONDecodeError then
         seq (emit (Print (''Error parsing config file: '' @ exn_msg e))) (\<lambda>u. sys_exit 1)
       else raise e)"

text \<open>Lines 40 to 51: the table is loaded, or the script ends.\<close>

definition load_data :: "env \<Rightarrow> settings \<Rightarrow> frame stmt" where
  "load_data env cfg =
     try_except
       (seq (eval_in (read_csv env (DATA_FILE cfg) (DATE_COLUMN cfg))) (\<lambda>df.
        seq (emit (LogInfo (''Loaded data from '' @ DATA_FILE cfg @ '' successfully.''))) (\<lambda>u.
        ret df)))
       (\<lambda>e.
          if exn_cls e = FileNotFoundError then
            seq (emit (LogError (''Data file '' @ quoted (DATA_FILE cfg) @ '' not found.''))) (\<lambda>u.
            sys_exit 1)
          else if exn_cls e = ParserError then
            seq (emit (LogError (''Error parsing CSV file: '' @ exn_msg e))) (\<lambda>u. sys_exit 1)
          else
            seq (emit (LogError (''Unexpected error loading data: '' @ exn_msg e))) (\<lambda>u.
            sys_exit 1))"

text \<open>Lines 52 to 56: the loop over the required columns.\<close>

definition required_columns :: "string list" where
  "required_columns = [''revenue'', ''cost'']"

fun check_columns :: "frame \<Rightarrow> string list \<Rightarrow> unit stmt" where
  "check_columns df [] = ret ()"
| "check_columns df (col # cols) =
     (if col \<notin> set (columns df) then
        seq (emit (LogError (''Missing required column: '' @ col))) (\<lambda>u. sys_exit 1)
      else check_columns df cols)"

text \<open>
  Lines 57 to 87: the metrics are computed, printed and saved. The block leaves the
  table with its profit column and the date of the day to the lines after it.
\<close>

definition metrics_block :: "env \<Rightarrow> settings \<Rightarrow> frame \<Rightarrow> (frame \<times> string) stmt" where
  "metrics_block env cfg df =
     seq (eval_in (aggregate df)) (\<lambda>m.
     seq (emit (Print (newline @ ''=== BUSINESS PERFORMANCE SUMMARY ==='' @ newline))) (\<lambda>u.
     seq (emit (PrintTable (summary_of m))) (\<lambda>u.
     seq (emit (LogInfo ''Metrics calculated and summary printed successfully.'')) (\<lambda>u.
     let today = today_str env; summary_file = summary_path cfg today in
     seq (call (to_csv env summary_file) (ToCsv summary_file (summary_of m))) (\<lambda>u.
     seq (emit (LogInfo (''Summary saved to '' @ summary_file))) (\<lambda>u.
     seq (emit (Print (newline @ ''Summary saved to: '' @ summary_file))) (\<lambda>u.
     ret (table m, today))))))))"

definition metrics_stage :: "env \<Rightarrow> settings \<Rightarrow> frame \<Rightarrow> (frame \<times> string) stmt" where
  "metrics_stage env cfg df =
     try_except (metrics_block env cfg df) (\<lambda>e.
       seq (emit (LogError (''Error calculating metrics: '' @ exn_msg e))) (\<lambda>u. sys_exit 1))"

text \<open>Lines 88 to 103: the chart. Its handler logs the exception and goes on.\<close>

definition plot_block :: "env \<Rightarrow> settings \<Rightarrow> frame \<Rightarrow> string \<Rightarrow> unit stmt" where
  "plot_block env cfg df today =
     seq (eval_in (daily_revenue df (DATE_COLUMN cfg))) (\<lambda>dr.
     let fig = \<lparr> fig_series = dr, fig_title = PLOT_TITLE cfg,
                 fig_xlabel = PLOT_XLABEL cfg, fig_ylabel = PLOT_YLABEL cfg \<rparr> in
     seq (attempt (plt_draw env)) (\<lambda>u.
     let plot_file = plot_path cfg today in
     seq (call (plt_savefig env plot_file) (SaveFig plot_file fig)) (\<lambda>u.
     seq (call (plt_show env) (ShowFig fig)) (\<lambda>u.
     seq (emit (LogInfo (''Daily revenue plot saved to '' @ plot_file))) (\<lambda>u.
     emit (Print (''Plot saved to: '' @ plot_file)))))))"

definition plot_stage :: "env \<Rightarrow> settings \<Rightarrow> frame \<Rightarrow> string \<Rightarrow> unit stmt" where
  "plot_stage env cfg df today =
     try_except (plot_block env cfg df today) (\<lambda>e.
       emit (LogError (''Error plotting daily revenue: '' @ exn_msg e)))"

text \<open>The whole script, line 16 to line 103.\<close>

definition main :: "env \<Rightarrow> unit stmt" where
  "main env =
     seq (load_config env) (\<lambda>config.
     let cfg = settings_of config in
     seq (call (mkdir env (OUTPUT_DIR cfg)) (MkDir (OUTPUT_DIR cfg) True True)) (\<lambda>u.
     seq (call (basic_config env (LOG_FILE cfg)) (BasicConfig (LOG_FILE cfg))) (\<lambda>u.
     seq (emit (LogInfo ''Script started'')) (\<lambda>u.
     seq (load_data env cfg) (\<lambda>df.
     seq (check_columns df required_columns) (\<lambda>u.
     seq (metrics_stage env cfg df) (\<lambda>r.
     plot_stage env cfg (fst r) (snd r))))))))"

text \<open>
  The exit status of the process: 0 at the end of the script, the argument of
  \<^verbatim>\<open>sys.exit\<close>, and 1 when an exception no handler catches ends it with a traceback.
\<close>

fun exit_status :: "'a res \<Rightarrow> nat" where
  "exit_status (Ok x) = 0"
| "exit_status (Raise e) = 1"
| "exit_status (SysExit n) = n"

text \<open>
  The files and the directories the effects of a run leave behind, from those that
  were there before. A call that raises leaves nothing, and the parents of the output
  directory are not tracked.
\<close>

datatype artifact = SummaryCsv summary | ChartPng figure

fun files_after :: "event list \<Rightarrow> (string \<rightharpoonup> artifact) \<Rightarrow> (string \<rightharpoonup> artifact)" where
  "files_after [] fs = fs"
| "files_after (ToCsv p s # evs) fs = files_after evs (fs(p \<mapsto> SummaryCsv s))"
| "files_after (SaveFig p g # evs) fs = files_after evs (fs(p \<mapsto> ChartPng g))"
| "files_after (ev # evs) fs = files_after evs fs"

fun dirs_after :: "event list \<Rightarrow> string set \<Rightarrow> string set" where
  "dirs_after [] ds = ds"
| "dirs_after (MkDir p parents exist_ok # evs) ds = dirs_after evs (insert p ds)"
| "dirs_after (ev # evs) ds = dirs_after evs ds"

section \<open>Tables and worlds for the statements\<close>

text \<open>
  A numeric column holds numbers and missing values: pandas reads an empty field of a
  column of numbers as \<open>NaN\<close> and keeps the column numeric.
\<close>

fun numeric :: "cell \<Rightarrow> bool" where
  "numeric (Num a) = True"
| "numeric NaN = True"
| "numeric c = False"

text \<open>Two days of sales with no revenue, and two days where one revenue is missing.\<close>

definition table_zero_revenue :: frame where
  "table_zero_revenue =
     [(''date'', [Date 1, Date 2]), (''revenue'', [Num 0, Num 0]), (''cost'', [Num 5, Num 7])]"


text \<open>
  The statement of the daily revenue in the words of the specification: the revenue
  of the rows of one date, added up, a missing revenue counting for nothing; the keys
  of a series in ascending order; the sum a series gives for a key.
\<close>

fun amount :: "cell \<Rightarrow> rat" where
  "amount (Num a) = a"
| "amount c = 0"

definition revenue_on :: "cell list \<Rightarrow> cell list \<Rightarrow> cell \<Rightarrow> rat" where
  "revenue_on keys revenue k =
     sum_list (map (\<lambda>row. amount (snd row)) (filter (\<lambda>row. fst row = k) (zip keys revenue)))"

definition ascending :: "cell list \<Rightarrow> bool" where
  "ascending ks = sorted_wrt (\<lambda>a b. cell_key a < cell_key b) ks"

definition total_at :: "series \<Rightarrow> cell \<Rightarrow> rat" where
  "total_at s k = (case map_of s k of None \<Rightarrow> 0 | Some v \<Rightarrow> v)"

text \<open>
  Scenario A of the specification, an empty table, and a table that comes with a
  profit column of its own.
\<close>

definition scenario_A :: "int \<Rightarrow> int \<Rightarrow> frame" where
  "scenario_A d1 d2 =
     [(''date'', [Date d1, Date d1, Date d2]),
      (''revenue'', [Num 100, Num 50, Num 0]),
      (''cost'', [Num 40, Num 10, Num 0])]"

definition table_empty :: frame where
  "table_empty = [(''date'', []), (''revenue'', []), (''cost'', [])]"

definition table_with_profit :: frame where
  "table_with_profit =
     [(''date'', [Date 1]), (''revenue'', [Num 100]), (''cost'', [Num 40]),
      (''profit'', [Num 55])]"




text \<open>
  Worlds for the statements: one where every call succeeds and the CSV file holds a
  given table, and others that differ from it in one respect. A table without a cost
  column; a world where saving the chart fails; one where the data file is not
  there; and one whose configuration names \<^verbatim>\<open>config.json\<close> itself, a file, as
  the output directory, so that \<^verbatim>\<open>mkdir\<close> raises \<^verbatim>\<open>FileExistsError\<close>.
\<close>

definition env_ok :: "frame \<Rightarrow> env" where
  "env_ok df =
     \<lparr> config_json = Inr Map.empty, mkdir = (\<lambda>p. None), basic_config = (\<lambda>p. None),
       read_csv = (\<lambda>p d. Inr df), today_str = ''20240131'', to_csv = (\<lambda>p. None),
       plt_draw = None, plt_savefig = (\<lambda>p. None), plt_show = None \<rparr>"

definition table_no_cost :: frame where
  "table_no_cost = [(''date'', [Date 1]), (''revenue'', [Num 100])]"

definition env_savefig_fails :: env where
  "env_savefig_fails =
     (env_ok (scenario_A 1 2)) \<lparr> plt_savefig := (\<lambda>p. Some (Exn OSError ''disk full'')) \<rparr>"

definition env_no_data :: env where
  "env_no_data =
     (env_ok []) \<lparr> read_csv := (\<lambda>p d. Inl (Exn FileNotFoundError ''sales_data.csv'')) \<rparr>"

definition env_output_is_file :: env where
  "env_output_is_file =
     (env_ok (scenario_A 1 2))
       \<lparr> config_json := Inr [''output_dir'' \<mapsto> ''config.json''],
         mkdir := (\<lambda>p. if p = ''config.json'' then Some (Exn FileExistsError p) else None) \<rparr>"

section \<open>Properties of the metrics\<close>

lemma and_then_Inr [simp]: "and_then (Inr x) f = f x"
  by (simp add: and_then_def)

lemma and_then_Inl [simp]: "and_then (Inl e) f = Inl e"
  by (simp add: and_then_def)

lemma and_then_InlE:
  assumes "and_then m f = Inl e"
    and "m = Inl e \<Longrightarrow> P"
    and "\<And>x. m = Inr x \<Longrightarrow> f x = Inl e \<Longrightarrow> P"
  shows P
  using assms by (cases m) simp_all

lemma map_of_setitem: "map_of (setitem df name vs) = (map_of df)(name \<mapsto> vs)"
  by (induction df name vs rule: setitem.induct) auto

lemma columns_setitem:
  "columns (setitem df name vs) =
     (if name \<in> set (columns df) then columns df else columns df @ [name])"
  by (induction df name vs rule: setitem.induct) (auto simp: columns_def)

lemma wf_frame_lengths:
  assumes "wf_frame df" and "map_of df a = Some xs" and "map_of df b = Some ys"
  shows "length xs = length ys"
proof -
  from assms(1) have all: "\<forall>c\<in>set df. length (snd c) = length (snd (hd df))"
    by (simp add: wf_frame_def list_all_iff)
  from assms(2) have "(a, xs) \<in> set df" by (rule map_of_SomeD)
  with all have "length (snd (a, xs)) = length (snd (hd df))" by (rule bspec)
  moreover from assms(3) have "(b, ys) \<in> set df" by (rule map_of_SomeD)
  with all have "length (snd (b, ys)) = length (snd (hd df))" by (rule bspec)
  ultimately show ?thesis by simp
qed

text \<open>The run of the metrics that succeeds.\<close>

lemma aggregate_Inr:
  assumes "map_of df ''revenue'' = Some revenue" and "map_of df ''cost'' = Some cost"
    and "sub_col revenue cost = Inr profit"
    and "col_sum revenue = Inr tr" and "col_sum cost = Inr tc" and "col_sum profit = Inr tp"
  shows "aggregate df =
     Inr \<lparr> table = setitem df ''profit'' profit, total_revenue = tr, total_cost = tc,
           total_profit = tp, profit_margin = (if tr = 0 then 0 else tp / tr),
           summary_of =
             [(''Total Revenue'', tr), (''Total Cost'', tc), (''Total Profit'', tp),
              (''Profit Margin (%)'', py_round ((if tr = 0 then 0 else tp / tr) * 100) 2)] \<rparr>"
  using assms by (simp add: aggregate_def getitem_def map_of_setitem truediv_def)

text \<open>Numeric columns pass the subtraction and the sums.\<close>

lemma sub_cell_numeric:
  "numeric a \<Longrightarrow> numeric b \<Longrightarrow> \<exists>c. sub_cell a b = Inr c \<and> numeric c"
  by (cases a; cases b) simp_all

lemma sub_col_numeric:
  "list_all numeric rs \<Longrightarrow> list_all numeric cs \<Longrightarrow>
     \<exists>p. sub_col rs cs = Inr p \<and> list_all numeric p"
proof (induction rs arbitrary: cs)
  case Nil
  then show ?case by simp
next
  case (Cons a as)
  show ?case
  proof (cases cs)
    case Nil
    then show ?thesis by simp
  next
    case (Cons b bs)
    with Cons.prems have "numeric a" "numeric b" "list_all numeric as" "list_all numeric bs"
      by simp_all
    moreover from this obtain c where "sub_cell a b = Inr c" "numeric c"
      using sub_cell_numeric by blast
    moreover from Cons.IH calculation obtain p where "sub_col as bs = Inr p" "list_all numeric p"
      by blast
    ultimately show ?thesis using Cons by simp
  qed
qed

lemma col_sum_numeric: "list_all numeric xs \<Longrightarrow> \<exists>s. col_sum xs = Inr s"
proof (induction xs)
  case (Cons x xs)
  then show ?case by (cases x) auto
qed simp

text \<open>The exceptions the metrics can raise.\<close>

lemma getitem_Inl: "getitem df name = Inl e \<Longrightarrow> exn_cls e = KeyError"
  by (auto simp: getitem_def split: option.splits)

lemma sub_cell_Inl: "sub_cell a b = Inl e \<Longrightarrow> exn_cls e = TypeError"
  by (cases "(a, b)" rule: sub_cell.cases) auto

lemma sub_col_Inl: "sub_col as bs = Inl e \<Longrightarrow> exn_cls e = TypeError"
  by (induction as bs rule: sub_col.induct) (auto split: sum.splits dest: sub_cell_Inl)

lemma col_sum_Inl: "col_sum xs = Inl e \<Longrightarrow> exn_cls e = TypeError"
  by (induction xs rule: col_sum.induct) (auto split: sum.splits)

lemma aggregate_Inl:
  assumes "aggregate df = Inl e"
  shows "exn_cls e = KeyError \<or> exn_cls e = TypeError"
  using assms unfolding aggregate_def Let_def
  apply (elim and_then_InlE)
  apply (auto dest: getitem_Inl sub_col_Inl col_sum_Inl simp: truediv_def split: if_splits)
  done

text \<open>Rounding a concrete value: the floor of a quotient of numerals is their \<open>div\<close>.\<close>

lemma floor_rat_numeral_div:
  "\<lfloor>numeral a / numeral b :: rat\<rfloor> = numeral a div numeral b"
  by (metis floor_divide_of_int_eq of_int_numeral)

lemma floor_rat_neg_numeral_div:
  "\<lfloor>- (numeral a / numeral b) :: rat\<rfloor> = - numeral a div numeral b"
  by (metis divide_minus_left floor_divide_of_int_eq of_int_neg_numeral of_int_numeral)

lemmas py_round_eval =
  py_round_def round_half_even_def Let_def floor_rat_numeral_div floor_rat_neg_numeral_div

lemmas aggregate_eval = aggregate_def getitem_def truediv_def

section \<open>Properties of the daily revenue\<close>

lemma cell_key_inj: "cell_key a = cell_key b \<Longrightarrow> a = b"
  by (cases a; cases b) simp_all

lemma cell_key_Date: "cell_key (Date x) < cell_key (Date y) \<longleftrightarrow> x < y"
  by simp

lemma keys_upsert: "set (map fst (upsert k v acc)) = insert k (set (map fst acc))"
  by (induction k v acc rule: upsert.induct) auto

lemma ascending_Cons:
  "ascending (k # ks) \<longleftrightarrow> (\<forall>k'\<in>set ks. cell_key k < cell_key k') \<and> ascending ks"
  by (simp add: ascending_def)

lemma ascending_upsert: "ascending (map fst acc) \<Longrightarrow> ascending (map fst (upsert k v acc))"
proof (induction k v acc rule: upsert.induct)
  case (1 k v)
  then show ?case by (simp add: ascending_def)
next
  case (2 k v k' s acc)
  show ?case
  proof (cases "k = k'")
    case True
    with 2 show ?thesis by simp
  next
    case ne: False
    show ?thesis
    proof (cases "cell_key k < cell_key k'")
      case True
      with ne 2 show ?thesis by (fastforce simp: ascending_Cons)
    next
      case False
      with ne have "cell_key k' < cell_key k"
        using cell_key_inj [of k k'] by (meson linorder_neqE)
      with ne False 2 show ?thesis
        by (auto simp: ascending_Cons keys_upsert simp del: set_map)
    qed
  qed
qed

lemma map_of_ascending_None:
  "\<forall>k'\<in>set (map fst acc). cell_key k < cell_key k' \<Longrightarrow> map_of acc k = None"
  by (induction acc) auto

lemma total_at_upsert:
  "ascending (map fst acc) \<Longrightarrow>
     total_at (upsert k v acc) k' = total_at acc k' + (if k' = k then v else 0)"
proof (induction k v acc rule: upsert.induct)
  case (1 k v)
  then show ?case by (simp add: total_at_def)
next
  case (2 k v k1 s acc)
  show ?case
  proof (cases "k = k1")
    case True
    then show ?thesis by (simp add: total_at_def)
  next
    case ne: False
    show ?thesis
    proof (cases "cell_key k < cell_key k1")
      case True
      with 2(2) have "\<forall>k'\<in>set (map fst acc). cell_key k < cell_key k'"
        by (fastforce simp: ascending_Cons)
      then have "map_of acc k = None" by (rule map_of_ascending_None)
      with ne True show ?thesis by (simp add: total_at_def)
    next
      case False
      from 2(2) have "ascending (map fst acc)" by (simp add: ascending_Cons)
      with 2(1) ne False have "total_at (upsert k v acc) k' =
          total_at acc k' + (if k' = k then v else 0)" by simp
      with ne False show ?thesis by (auto simp: total_at_def)
    qed
  qed
qed

lemma ascending_group_sum:
  "ascending (map fst acc) \<Longrightarrow> ascending (map fst (group_sum rows acc))"
  by (induction rows acc rule: group_sum.induct) (simp_all add: ascending_upsert)

lemma keys_group_sum:
  "set (map fst (group_sum rows acc)) =
     set (map fst acc) \<union> {k \<in> set (map fst rows). \<not> missing k}"
  by (induction rows acc rule: group_sum.induct) (auto simp: keys_upsert simp del: set_map)

lemma total_at_group_sum:
  "ascending (map fst acc) \<Longrightarrow> \<not> missing k \<Longrightarrow>
     total_at (group_sum rows acc) k =
       total_at acc k + sum_list (map snd (filter (\<lambda>row. fst row = k) rows))"
proof (induction rows acc rule: group_sum.induct)
  case (1 acc)
  then show ?case by simp
next
  case (2 k' v rows acc)
  then show ?case
    by (auto simp: ascending_upsert total_at_upsert)
qed

lemma summands_numeric: "list_all numeric revenue \<Longrightarrow> summands revenue = Inr (map amount revenue)"
proof (induction revenue)
  case (Cons c cs)
  then show ?case by (cases c) simp_all
qed simp

lemma sum_rows_amount:
  "sum_list (map snd (filter (\<lambda>row. fst row = k) (zip keys (map amount revenue)))) =
     revenue_on keys revenue k"
  unfolding revenue_on_def
  by (induction keys arbitrary: revenue; case_tac revenue) simp_all

lemma map_of_total_at:
  "k \<in> set (map fst s) \<Longrightarrow> map_of s k = Some (total_at s k)"
  by (cases "map_of s k") (auto simp: total_at_def map_of_eq_None_iff)

lemma setitem_new: "name \<notin> set (columns df) \<Longrightarrow> setitem df name vs = df @ [(name, vs)]"
  by (induction df name vs rule: setitem.induct) (auto simp: columns_def)

lemmas daily_revenue_eval = daily_revenue_def getitem_def

text \<open>
  C3. On a table whose date and revenue columns are there, the revenue numeric, the
  daily revenue is computed. Its keys are the dates of the table (a missing date is no
  key), each once and in ascending order, and each key has the sum of the revenue of
  exactly the rows of that date.
\<close>

theorem daily_revenue_series:
  assumes "wf_frame df"
    and "map_of df date_column = Some keys" and "map_of df ''revenue'' = Some revenue"
    and "list_all numeric revenue"
  shows "\<exists>s. daily_revenue df date_column = Inr s \<and>
           set (map fst s) = {k \<in> set keys. \<not> missing k} \<and>
           (\<forall>k\<in>set (map fst s). map_of s k = Some (revenue_on keys revenue k)) \<and>
           ascending (map fst s) \<and>
           (\<forall>i j x y. i < j \<and> j < length s \<and> fst (s ! i) = Date x \<and> fst (s ! j) = Date y
              \<longrightarrow> x < y)"
proof -
  define s where "s = group_sum (zip keys (map amount revenue)) []"
  have len: "length keys = length revenue"
    using wf_frame_lengths [OF assms(1,2,3)] .
  have run: "daily_revenue df date_column = Inr s"
    using assms(2,3) summands_numeric [OF assms(4)]
    by (simp add: daily_revenue_def getitem_def s_def)
  have asc: "ascending (map fst s)"
    unfolding s_def by (rule ascending_group_sum) (simp add: ascending_def)
  have keys: "set (map fst s) = {k \<in> set keys. \<not> missing k}"
    unfolding s_def keys_group_sum using len by simp
  have sums: "map_of s k = Some (revenue_on keys revenue k)" if "k \<in> set (map fst s)" for k
  proof -
    from that keys have "\<not> missing k" by simp
    then have "total_at s k = revenue_on keys revenue k"
      unfolding s_def
      by (subst total_at_group_sum) (simp_all add: ascending_def total_at_def sum_rows_amount)
    with map_of_total_at [OF that] show ?thesis by simp
  qed
  have dates: "x < y"
    if "i < j" "j < length s" "fst (s ! i) = Date x" "fst (s ! j) = Date y" for i j x y
  proof -
    from asc that(1,2) have "cell_key (map fst s ! i) < cell_key (map fst s ! j)"
      by (simp add: ascending_def sorted_wrt_iff_nth_less del: sorted_wrt_map)
    with that show ?thesis by simp
  qed
  from run keys sums asc dates show ?thesis by blast
qed

theorem daily_revenue_series_witness:
  "wf_frame (scenario_A 1 2) \<and>
   map_of (scenario_A 1 2) ''date'' = Some [Date 1, Date 1, Date 2] \<and>
   map_of (scenario_A 1 2) ''revenue'' = Some [Num 100, Num 50, Num 0] \<and>
   list_all numeric [Num 100, Num 50, Num 0] \<and>
   (\<exists>s. daily_revenue (scenario_A 1 2) ''date'' = Inr s \<and>
        set (map fst s) = {k \<in> set [Date 1, Date 1, Date 2]. \<not> missing k} \<and>
        (\<forall>k\<in>set (map fst s).
           map_of s k =
             Some (revenue_on [Date 1, Date 1, Date 2] [Num 100, Num 50, Num 0] k)) \<and>
        ascending (map fst s) \<and>
        (\<forall>i j x y. i < j \<and> j < length s \<and> fst (s ! i) = Date x \<and> fst (s ! j) = Date y
           \<longrightarrow> x < y)) \<and>
   daily_revenue (scenario_A 1 2) ''date'' = Inr [(Date 1, 150), (Date 2, 0)]"
proof -
  have w: "wf_frame (scenario_A 1 2)"
    by (simp add: scenario_A_def wf_frame_def columns_def)
  have k: "map_of (scenario_A 1 2) ''date'' = Some [Date 1, Date 1, Date 2]"
    by (simp add: scenario_A_def)
  have r: "map_of (scenario_A 1 2) ''revenue'' = Some [Num 100, Num 50, Num 0]"
    by (simp add: scenario_A_def)
  have n: "list_all numeric [Num 100, Num 50, Num 0]" by simp
  have run: "daily_revenue (scenario_A 1 2) ''date'' = Inr [(Date 1, 150), (Date 2, 0)]"
    by (simp add: scenario_A_def daily_revenue_eval)
  from daily_revenue_series [OF w k r n] w k r n run show ?thesis by blast
qed

text \<open>
  C7. Scenario A: the totals are 150, 50 and 100, the reported margin is 66.67, and the
  daily revenue is 150 on \<open>d1\<close> and 0 on \<open>d2\<close>, the earlier date first.
\<close>

theorem scenario_A_report:
  assumes "d1 \<noteq> d2"
  shows "aggregate (scenario_A d1 d2) =
           Inr \<lparr> table = scenario_A d1 d2 @ [(''profit'', [Num 60, Num 40, Num 0])],
                 total_revenue = 150, total_cost = 50, total_profit = 100,
                 profit_margin = 2 / 3,
                 summary_of =
                   [(''Total Revenue'', 150), (''Total Cost'', 50), (''Total Profit'', 100),
                    (''Profit Margin (%)'', 6667 / 100)] \<rparr> \<and>
         daily_revenue (scenario_A d1 d2 @ [(''profit'', [Num 60, Num 40, Num 0])]) ''date'' =
           Inr (if d1 < d2 then [(Date d1, 150), (Date d2, 0)]
                else [(Date d2, 0), (Date d1, 150)])"
  using assms
  by (simp add: scenario_A_def aggregate_eval daily_revenue_eval py_round_eval)

theorem scenario_A_report_witness:
  "(1::int) \<noteq> 2 \<and>
   aggregate (scenario_A 1 2) =
     Inr \<lparr> table = scenario_A 1 2 @ [(''profit'', [Num 60, Num 40, Num 0])],
           total_revenue = 150, total_cost = 50, total_profit = 100,
           profit_margin = 2 / 3,
           summary_of =
             [(''Total Revenue'', 150), (''Total Cost'', 50), (''Total Profit'', 100),
              (''Profit Margin (%)'', 6667 / 100)] \<rparr> \<and>
   daily_revenue (scenario_A 1 2 @ [(''profit'', [Num 60, Num 40, Num 0])]) ''date'' =
     Inr [(Date 1, 150), (Date 2, 0)]"
proof -
  have ne: "(1::int) \<noteq> 2" by simp
  from scenario_A_report [OF ne] ne show ?thesis by simp
qed

text \<open>
  C8, as the script has it. The profit column is revenue minus cost, every column
  with another name keeps its place and its values, and the profit column is appended
  last when the table had none; a profit column the table came with is replaced where
  it stands.
\<close>

theorem profit_column_frame:
  assumes "map_of df ''revenue'' = Some revenue" and "map_of df ''cost'' = Some cost"
    and "list_all numeric revenue" and "list_all numeric cost"
  shows "\<exists>m profit. aggregate df = Inr m \<and> sub_col revenue cost = Inr profit \<and>
           map_of (table m) ''profit'' = Some profit \<and>
           (\<forall>c. c \<noteq> ''profit'' \<longrightarrow> map_of (table m) c = map_of df c) \<and>
           columns (table m) =
             (if ''profit'' \<in> set (columns df) then columns df else columns df @ [''profit'']) \<and>
           (''profit'' \<notin> set (columns df) \<longrightarrow> table m = df @ [(''profit'', profit)])"
proof -
  obtain profit where p: "sub_col revenue cost = Inr profit" "list_all numeric profit"
    using sub_col_numeric [OF assms(3,4)] by blast
  obtain tr where tr: "col_sum revenue = Inr tr" using col_sum_numeric [OF assms(3)] by blast
  obtain tc where tc: "col_sum cost = Inr tc" using col_sum_numeric [OF assms(4)] by blast
  obtain tp where tp: "col_sum profit = Inr tp" using col_sum_numeric [OF p(2)] by blast
  show ?thesis
    using aggregate_Inr [OF assms(1,2) p(1) tr tc tp] p(1)
    by (simp add: map_of_setitem columns_setitem setitem_new)
qed

theorem profit_column_frame_witness:
  "map_of (scenario_A 1 2) ''revenue'' = Some [Num 100, Num 50, Num 0] \<and>
   map_of (scenario_A 1 2) ''cost'' = Some [Num 40, Num 10, Num 0] \<and>
   list_all numeric [Num 100, Num 50, Num 0] \<and> list_all numeric [Num 40, Num 10, Num 0] \<and>
   (\<exists>m. aggregate (scenario_A 1 2) = Inr m \<and>
        table m = scenario_A 1 2 @ [(''profit'', [Num 60, Num 40, Num 0])])"
proof -
  have r: "map_of (scenario_A 1 2) ''revenue'' = Some [Num 100, Num 50, Num 0]"
    by (simp add: scenario_A_def)
  have c: "map_of (scenario_A 1 2) ''cost'' = Some [Num 40, Num 10, Num 0]"
    by (simp add: scenario_A_def)
  have nr: "list_all numeric [Num 100, Num 50, Num 0]" by simp
  have nc: "list_all numeric [Num 40, Num 10, Num 0]" by simp
  have new: "''profit'' \<notin> set (columns (scenario_A 1 2))"
    by (simp add: scenario_A_def columns_def)
  from profit_column_frame [OF r c nr nc] new r c nr nc show ?thesis by auto
qed

text \<open>
  C8, as it is stated, fails on a table that comes with a profit column: its values
  (here 55) are replaced by revenue minus cost (60).
\<close>

theorem profit_column_overwritten_counterexample:
  "map_of table_with_profit ''profit'' = Some [Num 55] \<and>
   map_sum exn_cls table (aggregate table_with_profit) =
     Inr [(''date'', [Date 1]), (''revenue'', [Num 100]), (''cost'', [Num 40]),
          (''profit'', [Num 60])]"
  by (simp add: table_with_profit_def aggregate_eval)

section \<open>Properties of the metrics, in exact arithmetic and in float64\<close>

text \<open>
  Rounding to the nearest integer is off by a half at most, and rounding to float64
  by the fraction \<open>2\<^sup>-\<^sup>5\<^sup>3\<close> of the number at most.
\<close>

lemma round_half_even_near: "\<bar>of_int (round_half_even y) - y\<bar> \<le> 1 / 2"
proof -
  define f where "f = \<lfloor>y\<rfloor>"
  have fl: "of_int f \<le> y" "y < of_int f + 1" unfolding f_def by linarith+
  consider "y - of_int f < 1 / 2" | "1 / 2 < y - of_int f" | "y - of_int f = 1 / 2"
    by linarith
  then show ?thesis
  proof cases
    case 1
    then have "round_half_even y = f" by (simp add: round_half_even_def f_def)
    with fl 1 show ?thesis by simp
  next
    case 2
    then have "round_half_even y = f + 1" by (simp add: round_half_even_def f_def)
    with fl 2 show ?thesis by simp
  next
    case 3
    then have "round_half_even y = f \<or> round_half_even y = f + 1"
      by (simp add: round_half_even_def f_def Let_def)
    with fl 3 show ?thesis by auto
  qed
qed

lemma round_half_even_of_int [simp]: "round_half_even (of_int k) = k"
  by (simp add: round_half_even_def)









text \<open>
  With exact arithmetic the difference and the sum of this section are those of the
  first section, whatever the order of the additions.
\<close>

lemma fl_sum_exact: "fl_sum (\<lambda>x. x) t = sum_list (leaves t)"
  by (induction t) simp_all

lemma col_sum_present: "col_sum cs = and_then (present cs) (\<lambda>vs. Inr (sum_list vs))"
  by (induction cs rule: present.induct) (simp_all split: sum.splits)

lemma sub_col_fl_exact: "sub_col_fl (\<lambda>x. x) as bs = sub_col as bs"
proof (induction as bs rule: sub_col.induct)
  case (1 a as b bs)
  have "sub_cell_fl (\<lambda>x. x) a b = sub_cell a b"
    by (cases "(a, b)" rule: sub_cell.cases) simp_all
  with 1 show ?case by (simp split: sum.splits)
qed simp_all

lemma col_sum_fl_exact:
  assumes "any_order plan"
  shows "col_sum_fl (\<lambda>x. x) plan cs = col_sum cs"
proof (cases "present cs")
  case (Inl e)
  then show ?thesis by (simp add: col_sum_fl_def col_sum_present)
next
  case (Inr vs)
  show ?thesis
  proof (cases "vs = []")
    case True
    with Inr show ?thesis by (simp add: col_sum_fl_def col_sum_present)
  next
    case False
    with assms have "mset (leaves (plan vs)) = mset vs" by (simp add: any_order_def)
    then have "sum_list (leaves (plan vs)) = sum_list vs" by (metis sum_mset_sum_list)
    with Inr False show ?thesis by (simp add: col_sum_fl_def col_sum_present fl_sum_exact)
  qed
qed

text \<open>The run of the metrics that succeeds, and its parts on columns of numbers.\<close>

lemma aggregate_fl_Inr:
  assumes "map_of df ''revenue'' = Some revenue" and "map_of df ''cost'' = Some cost"
    and "sub_col_fl fl revenue cost = Inr profit"
    and "col_sum_fl fl plan revenue = Inr tr" and "col_sum_fl fl plan cost = Inr tc"
    and "col_sum_fl fl plan profit = Inr tp"
  shows "aggregate_fl fl plan df =
     Inr \<lparr> table = setitem df ''profit'' profit, total_revenue = tr, total_cost = tc,
           total_profit = tp,
           profit_margin = (if tr = 0 then 0 else rnd64 (rnd64 tp / rnd64 tr)),
           summary_of =
             [(''Total Revenue'', tr), (''Total Cost'', tc), (''Total Profit'', tp),
              (''Profit Margin (%)'',
                 np_round (rnd64 ((if tr = 0 then 0 else rnd64 (rnd64 tp / rnd64 tr)) * 100)) 2)] \<rparr>"
  using assms by (simp add: aggregate_fl_def getitem_def map_of_setitem truediv64_def)




















text \<open>The same of the rounding on exact values.\<close>

lemma py_round_grid:
  "\<exists>k. py_round x 2 = of_int k / 100 \<and> \<bar>of_int k - x * 100\<bar> \<le> 1 / 2"
proof -
  have "py_round x 2 = of_int (round_half_even (x * 100)) / 100"
    by (simp add: py_round_def)
  with round_half_even_near [of "x * 100"] show ?thesis by blast
qed

lemma py_round_accuracy: "\<bar>py_round x 2 - x\<bar> \<le> 1 / 200"
proof -
  have "py_round x 2 - x = (of_int (round_half_even (x * 100)) - x * 100) / 100"
    by (simp add: py_round_def field_simps)
  then have "\<bar>py_round x 2 - x\<bar> = \<bar>(of_int (round_half_even (x * 100)) - x * 100) / 100\<bar>"
    by (simp only:)
  also have "\<dots> = \<bar>of_int (round_half_even (x * 100)) - x * 100\<bar> / 100"
    by simp
  also have "\<dots> \<le> (1 / 2) / 100"
    using round_half_even_near [of "x * 100"] by (intro divide_right_mono) simp_all
  finally show ?thesis by simp
qed

text \<open>Numeric columns pass the subtraction and the sums.\<close>

lemma sub_cell_fl_numeric:
  "numeric a \<Longrightarrow> numeric b \<Longrightarrow> \<exists>c. sub_cell_fl fl a b = Inr c \<and> numeric c"
  by (cases a; cases b) simp_all

lemma sub_col_fl_numeric:
  "list_all numeric rs \<Longrightarrow> list_all numeric cs \<Longrightarrow>
     \<exists>p. sub_col_fl fl rs cs = Inr p \<and> list_all numeric p"
proof (induction rs arbitrary: cs)
  case Nil
  then show ?case by simp
next
  case (Cons a as)
  show ?case
  proof (cases cs)
    case Nil
    then show ?thesis by simp
  next
    case (Cons b bs)
    with Cons.prems have "numeric a" "numeric b" "list_all numeric as" "list_all numeric bs"
      by simp_all
    moreover from this obtain c where "sub_cell_fl fl a b = Inr c" "numeric c"
      using sub_cell_fl_numeric by blast
    moreover from Cons.IH calculation obtain p where
      "sub_col_fl fl as bs = Inr p" "list_all numeric p"
      by blast
    ultimately show ?thesis using Cons by simp
  qed
qed

lemma present_numeric: "list_all numeric xs \<Longrightarrow> \<exists>vs. present xs = Inr vs"
proof (induction xs)
  case (Cons x xs)
  then show ?case by (cases x) auto
qed simp

lemma col_sum_fl_numeric: "list_all numeric xs \<Longrightarrow> \<exists>s. col_sum_fl fl plan xs = Inr s"
  using present_numeric [of xs] by (auto simp: col_sum_fl_def)

text \<open>The exceptions the metrics can raise.\<close>

lemma sub_cell_fl_Inl: "sub_cell_fl fl a b = Inl e \<Longrightarrow> exn_cls e = TypeError"
  by (cases "(fl, a, b)" rule: sub_cell_fl.cases) auto

lemma sub_col_fl_Inl: "sub_col_fl fl as bs = Inl e \<Longrightarrow> exn_cls e = TypeError"
  by (induction fl as bs rule: sub_col_fl.induct) (auto split: sum.splits dest: sub_cell_fl_Inl)

lemma present_Inl: "present xs = Inl e \<Longrightarrow> exn_cls e = TypeError"
  by (induction xs rule: present.induct) (auto split: sum.splits)

lemma col_sum_fl_Inl: "col_sum_fl fl plan xs = Inl e \<Longrightarrow> exn_cls e = TypeError"
  by (cases "present xs") (auto simp: col_sum_fl_def dest: present_Inl)

lemma aggregate_fl_Inl:
  assumes "aggregate_fl fl plan df = Inl e"
  shows "exn_cls e = KeyError \<or> exn_cls e = TypeError"
  using assms unfolding aggregate_fl_def Let_def
  apply (elim and_then_InlE)
  apply (auto dest: getitem_Inl sub_col_fl_Inl col_sum_fl_Inl simp: truediv64_def split: if_splits)
  done

text \<open>Scenario A in float64, added from left to right.\<close>

lemma scenario_A_cells:
  "sub_col_fl rnd64 [Num 100, Num 50, Num 0] [Num 40, Num 10, Num 0] =
     Inr [Num 60, Num 40, Num 0]"
  "col_sum_fl rnd64 in_order [Num 100, Num 50, Num 0] = Inr 150"
  "col_sum_fl rnd64 in_order [Num 60, Num 40, Num 0] = Inr 100"
  "rnd64 (rnd64 100 / rnd64 150) = 6004799503160661 / 9007199254740992"
  by code_simp+

text \<open>
  C1. On a table whose revenue and cost columns are there and numeric, the metrics are
  computed: the total revenue is the sum of the revenue column, the total profit the
  sum of the profit column, which is revenue minus cost, and the profit margin is the
  total profit divided by the total revenue, or 0 when the total revenue is 0. This
  holds in exact arithmetic, where the quotient is the exact one, and in float64,
  where it is the float64 quotient. On no table at all do the metrics raise
  \<^verbatim>\<open>ZeroDivisionError\<close>.
\<close>

theorem profit_margin_guarded:
  assumes "map_of df ''revenue'' = Some revenue" and "map_of df ''cost'' = Some cost"
    and "list_all numeric revenue" and "list_all numeric cost"
  shows "(\<exists>m profit. aggregate df = Inr m \<and>
            sub_col revenue cost = Inr profit \<and>
            col_sum revenue = Inr (total_revenue m) \<and>
            col_sum profit = Inr (total_profit m) \<and>
            profit_margin m =
              (if total_revenue m = 0 then 0 else total_profit m / total_revenue m)) \<and>
         (\<exists>m profit. aggregate_fl fl plan df = Inr m \<and>
            sub_col_fl fl revenue cost = Inr profit \<and>
            col_sum_fl fl plan revenue = Inr (total_revenue m) \<and>
            col_sum_fl fl plan profit = Inr (total_profit m) \<and>
            profit_margin m =
              (if total_revenue m = 0 then 0
               else rnd64 (rnd64 (total_profit m) / rnd64 (total_revenue m)))) \<and>
         (\<forall>df' e. aggregate df' = Inl e \<longrightarrow> exn_cls e \<noteq> ZeroDivisionError) \<and>
         (\<forall>df' e. aggregate_fl fl plan df' = Inl e \<longrightarrow> exn_cls e \<noteq> ZeroDivisionError)"
proof (intro conjI)
  obtain profit where p: "sub_col revenue cost = Inr profit" "list_all numeric profit"
    using sub_col_numeric [OF assms(3,4)] by blast
  obtain tr where tr: "col_sum revenue = Inr tr" using col_sum_numeric [OF assms(3)] by blast
  obtain tc where tc: "col_sum cost = Inr tc" using col_sum_numeric [OF assms(4)] by blast
  obtain tp where tp: "col_sum profit = Inr tp" using col_sum_numeric [OF p(2)] by blast
  show "\<exists>m profit. aggregate df = Inr m \<and>
            sub_col revenue cost = Inr profit \<and>
            col_sum revenue = Inr (total_revenue m) \<and>
            col_sum profit = Inr (total_profit m) \<and>
            profit_margin m =
              (if total_revenue m = 0 then 0 else total_profit m / total_revenue m)"
    using aggregate_Inr [OF assms(1,2) p(1) tr tc tp] p(1) tr tp by simp
  obtain profit' where p': "sub_col_fl fl revenue cost = Inr profit'" "list_all numeric profit'"
    using sub_col_fl_numeric [OF assms(3,4)] by blast
  obtain tr' where tr': "col_sum_fl fl plan revenue = Inr tr'"
    using col_sum_fl_numeric [OF assms(3)] by blast
  obtain tc' where tc': "col_sum_fl fl plan cost = Inr tc'"
    using col_sum_fl_numeric [OF assms(4)] by blast
  obtain tp' where tp': "col_sum_fl fl plan profit' = Inr tp'"
    using col_sum_fl_numeric [OF p'(2)] by blast
  show "\<exists>m profit. aggregate_fl fl plan df = Inr m \<and>
            sub_col_fl fl revenue cost = Inr profit \<and>
            col_sum_fl fl plan revenue = Inr (total_revenue m) \<and>
            col_sum_fl fl plan profit = Inr (total_profit m) \<and>
            profit_margin m =
              (if total_revenue m = 0 then 0
               else rnd64 (rnd64 (total_profit m) / rnd64 (total_revenue m)))"
    using aggregate_fl_Inr [OF assms(1,2) p'(1) tr' tc' tp'] p'(1) tr' tp' by simp
  show "\<forall>df' e. aggregate df' = Inl e \<longrightarrow> exn_cls e \<noteq> ZeroDivisionError"
    using aggregate_Inl by fastforce
  show "\<forall>df' e. aggregate_fl fl plan df' = Inl e \<longrightarrow> exn_cls e \<noteq> ZeroDivisionError"
    using aggregate_fl_Inl by fastforce
qed

theorem profit_margin_guarded_witness:
  "map_of (scenario_A 1 2) ''revenue'' = Some [Num 100, Num 50, Num 0] \<and>
   map_of (scenario_A 1 2) ''cost'' = Some [Num 40, Num 10, Num 0] \<and>
   list_all numeric [Num 100, Num 50, Num 0] \<and> list_all numeric [Num 40, Num 10, Num 0] \<and>
   (\<exists>m. aggregate (scenario_A 1 2) = Inr m \<and>
        sub_col [Num 100, Num 50, Num 0] [Num 40, Num 10, Num 0] =
          Inr [Num 60, Num 40, Num 0] \<and>
        total_revenue m = 150 \<and> total_profit m = 100 \<and> profit_margin m = 2 / 3) \<and>
   (\<exists>m. aggregate_fl rnd64 in_order (scenario_A 1 2) = Inr m \<and>
        total_revenue m = 150 \<and> total_profit m = 100 \<and>
        profit_margin m = 6004799503160661 / 9007199254740992) \<and>
   map_sum exn_cls total_revenue (aggregate table_zero_revenue) = Inr 0 \<and>
   map_sum exn_cls total_profit (aggregate table_zero_revenue) = Inr (- 12) \<and>
   map_sum exn_cls profit_margin (aggregate table_zero_revenue) = Inr 0"
proof -
  have r: "map_of (scenario_A 1 2) ''revenue'' = Some [Num 100, Num 50, Num 0]"
    by (simp add: scenario_A_def)
  have c: "map_of (scenario_A 1 2) ''cost'' = Some [Num 40, Num 10, Num 0]"
    by (simp add: scenario_A_def)
  have nr: "list_all numeric [Num 100, Num 50, Num 0]" by simp
  have nc: "list_all numeric [Num 40, Num 10, Num 0]" by simp
  note inst = profit_margin_guarded [OF r c nr nc, of rnd64 in_order]
  from inst obtain m profit where
    m: "aggregate (scenario_A 1 2) = Inr m"
    and p: "sub_col [Num 100, Num 50, Num 0] [Num 40, Num 10, Num 0] = Inr profit"
    and tr: "col_sum [Num 100, Num 50, Num 0] = Inr (total_revenue m)"
    and tp: "col_sum profit = Inr (total_profit m)"
    and pm: "profit_margin m =
      (if total_revenue m = 0 then 0 else total_profit m / total_revenue m)"
    by blast
  from p have profit: "profit = [Num 60, Num 40, Num 0]" by simp
  from tr have vr: "total_revenue m = 150" by simp
  from tp have vp: "total_profit m = 100" by (simp add: profit)
  from pm have vm: "profit_margin m = 2 / 3" by (simp add: vr vp)
  have s: "sub_col [Num 100, Num 50, Num 0] [Num 40, Num 10, Num 0] =
      Inr [Num 60, Num 40, Num 0]" by simp
  from inst obtain m' profit' where
    m': "aggregate_fl rnd64 in_order (scenario_A 1 2) = Inr m'"
    and p': "sub_col_fl rnd64 [Num 100, Num 50, Num 0] [Num 40, Num 10, Num 0] = Inr profit'"
    and tr': "col_sum_fl rnd64 in_order [Num 100, Num 50, Num 0] = Inr (total_revenue m')"
    and tp': "col_sum_fl rnd64 in_order profit' = Inr (total_profit m')"
    and pm': "profit_margin m' =
      (if total_revenue m' = 0 then 0
       else rnd64 (rnd64 (total_profit m') / rnd64 (total_revenue m')))"
    by blast
  from p' have profit': "profit' = [Num 60, Num 40, Num 0]"
    by (simp only: scenario_A_cells sum.inject)
  from tr' have vr': "total_revenue m' = 150" by (simp only: scenario_A_cells sum.inject)
  from tp' have vp': "total_profit m' = 100" by (simp only: profit' scenario_A_cells sum.inject)
  have nz: "(150::rat) \<noteq> 0" by simp
  from pm' have vm': "profit_margin m' = 6004799503160661 / 9007199254740992"
    by (simp only: vr' vp' nz if_False scenario_A_cells)
  have run: "map_sum exn_cls total_revenue (aggregate table_zero_revenue) = Inr 0"
    "map_sum exn_cls total_profit (aggregate table_zero_revenue) = Inr (- 12)"
    "map_sum exn_cls profit_margin (aggregate table_zero_revenue) = Inr 0"
    by (simp_all add: table_zero_revenue_def aggregate_eval)
  from r c nr nc m s vr vp vm m' vr' vp' vm' run show ?thesis by blast
qed






section \<open>Properties of the script\<close>

lemma seq_simps:
  "seq (evs, Ok x) f = (evs @ fst (f x), snd (f x))"
  "seq (evs, Raise e) f = (evs, Raise e)"
  "seq (evs, SysExit n) f = (evs, SysExit n)"
  by (simp_all add: seq_def)

lemma try_except_simps:
  "try_except (evs, Ok x) h = (evs, Ok x)"
  "try_except (evs, Raise e) h = (evs @ fst (h e), snd (h e))"
  "try_except (evs, SysExit n) h = (evs, SysExit n)"
  by (simp_all add: try_except_def)

lemma attempt_simps:
  "attempt None = ([], Ok ())"
  "attempt (Some e) = ([], Raise e)"
  by (simp_all add: attempt_def ret_def raise_def)

lemma call_simps:
  "call None ev = ([ev], Ok ())"
  "call (Some e) ev = ([], Raise e)"
  by (simp_all add: call_def attempt_simps seq_simps emit_def)

lemma eval_in_simps:
  "eval_in (Inr x) = ([], Ok x)"
  "eval_in (Inl e) = ([], Raise e)"
  by (simp_all add: eval_in_def ret_def raise_def)

lemmas stmt_simps =
  seq_simps try_except_simps attempt_simps call_simps eval_in_simps
  ret_def emit_def raise_def sys_exit_def

lemma load_config_Inr: "config_json env = Inr config \<Longrightarrow> load_config env = ret config"
  by (simp add: load_config_def stmt_simps)

lemma load_data_Inr:
  "read_csv env (DATA_FILE cfg) (DATE_COLUMN cfg) = Inr df \<Longrightarrow>
     load_data env cfg =
       ([LogInfo (''Loaded data from '' @ DATA_FILE cfg @ '' successfully.'')], Ok df)"
  by (simp add: load_data_def stmt_simps)

lemma check_columns_missing:
  assumes "''revenue'' \<notin> set (columns df) \<or> ''cost'' \<notin> set (columns df)"
  shows "check_columns df required_columns =
     ([LogError (''Missing required column: '' @
         (if ''revenue'' \<notin> set (columns df) then ''revenue'' else ''cost''))], SysExit 1)"
  using assms by (auto simp: required_columns_def stmt_simps)

lemma check_columns_present:
  assumes "''revenue'' \<in> set (columns df)" and "''cost'' \<in> set (columns df)"
  shows "check_columns df required_columns = ret ()"
  using assms by (simp add: required_columns_def stmt_simps)

lemma settings_of_empty:
  "settings_of Map.empty =
     \<lparr> DATA_FILE = ''sales_data.csv'', DATE_COLUMN = ''date'', LOG_FILE = ''sales_analysis.log'',
       PLOT_TITLE = ''Daily Revenue Trend'', PLOT_XLABEL = ''Date'', PLOT_YLABEL = ''Revenue'',
       OUTPUT_DIR = ''outputs'' \<rparr>"
  by (simp add: settings_of_def config_get_def)

text \<open>
  C4. When the table is loaded and its revenue or its cost column is not there, the
  script logs the name of the first missing one and exits with status 1. Nothing of
  the metrics has run: the error is the last effect, and no file has been written.
\<close>

theorem missing_column_exits:
  assumes "config_json env = Inr config"
    and "mkdir env (OUTPUT_DIR (settings_of config)) = None"
    and "basic_config env (LOG_FILE (settings_of config)) = None"
    and "read_csv env (DATA_FILE (settings_of config)) (DATE_COLUMN (settings_of config)) = Inr df"
    and "''revenue'' \<notin> set (columns df) \<or> ''cost'' \<notin> set (columns df)"
  shows "main env =
           ([MkDir (OUTPUT_DIR (settings_of config)) True True,
             BasicConfig (LOG_FILE (settings_of config)),
             LogInfo ''Script started'',
             LogInfo (''Loaded data from '' @ DATA_FILE (settings_of config) @ '' successfully.''),
             LogError (''Missing required column: '' @
               (if ''revenue'' \<notin> set (columns df) then ''revenue'' else ''cost''))],
            SysExit 1) \<and>
         exit_status (snd (main env)) \<noteq> 0 \<and>
         files_after (fst (main env)) fs = fs"
proof -
  have run: "main env =
           ([MkDir (OUTPUT_DIR (settings_of config)) True True,
             BasicConfig (LOG_FILE (settings_of config)),
             LogInfo ''Script started'',
             LogInfo (''Loaded data from '' @ DATA_FILE (settings_of config) @ '' successfully.''),
             LogError (''Missing required column: '' @
               (if ''revenue'' \<notin> set (columns df) then ''revenue'' else ''cost''))],
            SysExit 1)"
    unfolding main_def Let_def
    by (simp add: load_config_Inr [OF assms(1)] assms(2,3) load_data_Inr [OF assms(4)]
        check_columns_missing [OF assms(5)] stmt_simps)
  then show ?thesis by simp
qed

theorem missing_column_exits_witness:
  "config_json (env_ok table_no_cost) = Inr Map.empty \<and>
   mkdir (env_ok table_no_cost) (OUTPUT_DIR (settings_of Map.empty)) = None \<and>
   basic_config (env_ok table_no_cost) (LOG_FILE (settings_of Map.empty)) = None \<and>
   read_csv (env_ok table_no_cost) (DATA_FILE (settings_of Map.empty))
     (DATE_COLUMN (settings_of Map.empty)) = Inr table_no_cost \<and>
   ''cost'' \<notin> set (columns table_no_cost) \<and>
   main (env_ok table_no_cost) =
     ([MkDir ''outputs'' True True, BasicConfig ''sales_analysis.log'',
       LogInfo ''Script started'',
       LogInfo ''Loaded data from sales_data.csv successfully.'',
       LogError ''Missing required column: cost''],
      SysExit 1) \<and>
   exit_status (snd (main (env_ok table_no_cost))) \<noteq> 0 \<and>
   files_after (fst (main (env_ok table_no_cost))) Map.empty = Map.empty"
proof -
  have c: "config_json (env_ok table_no_cost) = Inr Map.empty"
    by (simp add: env_ok_def)
  have m: "mkdir (env_ok table_no_cost) (OUTPUT_DIR (settings_of Map.empty)) = None"
    by (simp add: env_ok_def)
  have b: "basic_config (env_ok table_no_cost) (LOG_FILE (settings_of Map.empty)) = None"
    by (simp add: env_ok_def)
  have r: "read_csv (env_ok table_no_cost) (DATA_FILE (settings_of Map.empty))
     (DATE_COLUMN (settings_of Map.empty)) = Inr table_no_cost"
    by (simp add: env_ok_def)
  have cols: "''revenue'' \<in> set (columns table_no_cost)" "''cost'' \<notin> set (columns table_no_cost)"
    by (simp_all add: table_no_cost_def columns_def)
  then have d: "''revenue'' \<notin> set (columns table_no_cost) \<or> ''cost'' \<notin> set (columns table_no_cost)"
    by simp
  from missing_column_exits [OF c m b r d, of Map.empty] c m b r cols show ?thesis
    by (simp add: settings_of_empty)
qed

lemma plot_stage_cases:
  "plot_stage env cfg df today =
     (case daily_revenue df (DATE_COLUMN cfg) of
        Inl e \<Rightarrow> ([LogError (''Error plotting daily revenue: '' @ exn_msg e)], Ok ())
      | Inr dr \<Rightarrow>
         (case plt_draw env of
            Some e \<Rightarrow> ([LogError (''Error plotting daily revenue: '' @ exn_msg e)], Ok ())
          | None \<Rightarrow>
             (case plt_savefig env (plot_path cfg today) of
                Some e \<Rightarrow> ([LogError (''Error plotting daily revenue: '' @ exn_msg e)], Ok ())
              | None \<Rightarrow>
                 (case plt_show env of
                    Some e \<Rightarrow>
                      ([SaveFig (plot_path cfg today)
                          \<lparr> fig_series = dr, fig_title = PLOT_TITLE cfg,
                            fig_xlabel = PLOT_XLABEL cfg, fig_ylabel = PLOT_YLABEL cfg \<rparr>,
                        LogError (''Error plotting daily revenue: '' @ exn_msg e)], Ok ())
                  | None \<Rightarrow>
                      ([SaveFig (plot_path cfg today)
                          \<lparr> fig_series = dr, fig_title = PLOT_TITLE cfg,
                            fig_xlabel = PLOT_XLABEL cfg, fig_ylabel = PLOT_YLABEL cfg \<rparr>,
                        ShowFig
                          \<lparr> fig_series = dr, fig_title = PLOT_TITLE cfg,
                            fig_xlabel = PLOT_XLABEL cfg, fig_ylabel = PLOT_YLABEL cfg \<rparr>,
                        LogInfo (''Daily revenue plot saved to '' @ plot_path cfg today),
                        Print (''Plot saved to: '' @ plot_path cfg today)], Ok ())))))"
  unfolding plot_stage_def plot_block_def Let_def
  by (simp add: stmt_simps split: sum.split option.split)

lemma plot_stage_Ok: "snd (plot_stage env cfg df today) = Ok ()"
  by (simp add: plot_stage_cases split: sum.split option.split)

lemma plot_stage_raised:
  assumes "snd (plot_block env cfg df today) = Raise e"
  shows "plot_stage env cfg df today =
     (fst (plot_block env cfg df today) @
        [LogError (''Error plotting daily revenue: '' @ exn_msg e)], Ok ())"
  using assms by (simp add: plot_stage_def try_except_def emit_def)

lemma paths_differ: "summary_path cfg today \<noteq> plot_path cfg today"
  by (simp add: summary_path_def plot_path_def path_join_def)

lemma plot_stage_files:
  "p \<noteq> plot_path cfg today \<Longrightarrow> files_after (fst (plot_stage env cfg df today)) fs p = fs p"
  by (simp add: plot_stage_cases split: sum.split option.split)

lemma files_after_append: "files_after (evs @ evs') fs = files_after evs' (files_after evs fs)"
  by (induction evs fs rule: files_after.induct) (simp_all add: fun_upd_def)

lemma metrics_stage_Ok:
  assumes "aggregate df = Inr m" and "to_csv env (summary_path cfg (today_str env)) = None"
  shows "metrics_stage env cfg df =
     ([Print (newline @ ''=== BUSINESS PERFORMANCE SUMMARY ==='' @ newline),
       PrintTable (summary_of m),
       LogInfo ''Metrics calculated and summary printed successfully.'',
       ToCsv (summary_path cfg (today_str env)) (summary_of m),
       LogInfo (''Summary saved to '' @ summary_path cfg (today_str env)),
       Print (newline @ ''Summary saved to: '' @ summary_path cfg (today_str env))],
      Ok (table m, today_str env))"
  using assms by (simp add: metrics_stage_def metrics_block_def Let_def stmt_simps)

lemma dirs_after_mono: "p \<in> ds \<Longrightarrow> p \<in> dirs_after evs ds"
  by (induction evs ds rule: dirs_after.induct) simp_all

lemma main_reaches_plot:
  assumes "config_json env = Inr config"
    and "mkdir env (OUTPUT_DIR (settings_of config)) = None"
    and "basic_config env (LOG_FILE (settings_of config)) = None"
    and "read_csv env (DATA_FILE (settings_of config)) (DATE_COLUMN (settings_of config)) = Inr df"
    and "''revenue'' \<in> set (columns df)" and "''cost'' \<in> set (columns df)"
    and "aggregate df = Inr m"
    and "to_csv env (summary_path (settings_of config) (today_str env)) = None"
  shows "main env =
     ([MkDir (OUTPUT_DIR (settings_of config)) True True,
       BasicConfig (LOG_FILE (settings_of config)),
       LogInfo ''Script started'',
       LogInfo (''Loaded data from '' @ DATA_FILE (settings_of config) @ '' successfully.''),
       Print (newline @ ''=== BUSINESS PERFORMANCE SUMMARY ==='' @ newline),
       PrintTable (summary_of m),
       LogInfo ''Metrics calculated and summary printed successfully.'',
       ToCsv (summary_path (settings_of config) (today_str env)) (summary_of m),
       LogInfo (''Summary saved to '' @ summary_path (settings_of config) (today_str env)),
       Print (newline @ ''Summary saved to: '' @
          summary_path (settings_of config) (today_str env))]
      @ fst (plot_stage env (settings_of config) (table m) (today_str env)),
      snd (plot_stage env (settings_of config) (table m) (today_str env)))"
  unfolding main_def Let_def
  by (simp add: load_config_Inr [OF assms(1)] assms(2,3) load_data_Inr [OF assms(4)]
      check_columns_present [OF assms(5,6)] metrics_stage_Ok [OF assms(7,8)] stmt_simps)

text \<open>
  C9. On a table with no rows the metrics are computed without an exception: the
  totals and the margin are 0, the summary has its four rows, and the stage prints it
  and saves it (when the file can be written) as on any other table.
\<close>

theorem empty_table_report:
  assumes "map_of df ''revenue'' = Some []" and "map_of df ''cost'' = Some []"
  shows "aggregate df =
           Inr \<lparr> table = setitem df ''profit'' [],
                 total_revenue = 0, total_cost = 0, total_profit = 0, profit_margin = 0,
                 summary_of =
                   [(''Total Revenue'', 0), (''Total Cost'', 0), (''Total Profit'', 0),
                    (''Profit Margin (%)'', 0)] \<rparr> \<and>
         (to_csv env (summary_path cfg (today_str env)) = None \<longrightarrow>
            metrics_stage env cfg df =
              ([Print (newline @ ''=== BUSINESS PERFORMANCE SUMMARY ==='' @ newline),
                PrintTable
                  [(''Total Revenue'', 0), (''Total Cost'', 0), (''Total Profit'', 0),
                   (''Profit Margin (%)'', 0)],
                LogInfo ''Metrics calculated and summary printed successfully.'',
                ToCsv (summary_path cfg (today_str env))
                  [(''Total Revenue'', 0), (''Total Cost'', 0), (''Total Profit'', 0),
                   (''Profit Margin (%)'', 0)],
                LogInfo (''Summary saved to '' @ summary_path cfg (today_str env)),
                Print (newline @ ''Summary saved to: '' @ summary_path cfg (today_str env))],
               Ok (setitem df ''profit'' [], today_str env)))"
proof -
  have a: "aggregate df =
           Inr \<lparr> table = setitem df ''profit'' [],
                 total_revenue = 0, total_cost = 0, total_profit = 0, profit_margin = 0,
                 summary_of =
                   [(''Total Revenue'', 0), (''Total Cost'', 0), (''Total Profit'', 0),
                    (''Profit Margin (%)'', 0)] \<rparr>"
    using assms by (simp add: aggregate_eval map_of_setitem py_round_eval)
  show ?thesis
    using a metrics_stage_Ok [OF a, of env cfg] by simp
qed

theorem empty_table_report_witness:
  "map_of table_empty ''revenue'' = Some [] \<and> map_of table_empty ''cost'' = Some [] \<and>
   to_csv (env_ok table_empty)
     (summary_path (settings_of Map.empty) (today_str (env_ok table_empty))) = None \<and>
   aggregate table_empty =
     Inr \<lparr> table = [(''date'', []), (''revenue'', []), (''cost'', []), (''profit'', [])],
           total_revenue = 0, total_cost = 0, total_profit = 0, profit_margin = 0,
           summary_of =
             [(''Total Revenue'', 0), (''Total Cost'', 0), (''Total Profit'', 0),
              (''Profit Margin (%)'', 0)] \<rparr> \<and>
   metrics_stage (env_ok table_empty) (settings_of Map.empty) table_empty =
     ([Print (newline @ ''=== BUSINESS PERFORMANCE SUMMARY ==='' @ newline),
       PrintTable
         [(''Total Revenue'', 0), (''Total Cost'', 0), (''Total Profit'', 0),
          (''Profit Margin (%)'', 0)],
       LogInfo ''Metrics calculated and summary printed successfully.'',
       ToCsv ''outputs/summary_20240131.csv''
         [(''Total Revenue'', 0), (''Total Cost'', 0), (''Total Profit'', 0),
          (''Profit Margin (%)'', 0)],
       LogInfo ''Summary saved to outputs/summary_20240131.csv'',
       Print (newline @ ''Summary saved to: outputs/summary_20240131.csv'')],
      Ok ([(''date'', []), (''revenue'', []), (''cost'', []), (''profit'', [])], ''20240131''))"
proof -
  have r: "map_of table_empty ''revenue'' = Some []" by (simp add: table_empty_def)
  have c: "map_of table_empty ''cost'' = Some []" by (simp add: table_empty_def)
  have t: "to_csv (env_ok table_empty)
     (summary_path (settings_of Map.empty) (today_str (env_ok table_empty))) = None"
    by (simp add: env_ok_def)
  have today: "today_str (env_ok table_empty) = ''20240131''"
    by (simp add: env_ok_def)
  have path: "summary_path (settings_of Map.empty) ''20240131'' = ''outputs/summary_20240131.csv''"
    by (simp add: summary_path_def path_join_def anchor_def settings_of_empty)
  have tab: "setitem table_empty ''profit'' [] =
      [(''date'', []), (''revenue'', []), (''cost'', []), (''profit'', [])]"
    by (simp add: table_empty_def)
  from empty_table_report [OF r c, of "env_ok table_empty" "settings_of Map.empty"] r c t
  show ?thesis
    by (simp add: today path tab)
qed

text \<open>
  C5. When the summary has been saved, whatever the chart stage raises, the script
  ends with status 0; the exception is logged as the last effect, and the summary
  file holds the summary as it was saved.
\<close>

theorem chart_failure_isolated:
  assumes "config_json env = Inr config"
    and "mkdir env (OUTPUT_DIR (settings_of config)) = None"
    and "basic_config env (LOG_FILE (settings_of config)) = None"
    and "read_csv env (DATA_FILE (settings_of config)) (DATE_COLUMN (settings_of config)) = Inr df"
    and "''revenue'' \<in> set (columns df)" and "''cost'' \<in> set (columns df)"
    and "aggregate df = Inr m"
    and "to_csv env (summary_path (settings_of config) (today_str env)) = None"
  shows "snd (main env) = Ok () \<and> exit_status (snd (main env)) = 0 \<and>
         files_after (fst (main env)) fs (summary_path (settings_of config) (today_str env)) =
           Some (SummaryCsv (summary_of m)) \<and>
         (\<forall>e. snd (plot_block env (settings_of config) (table m) (today_str env)) = Raise e \<longrightarrow>
            last (fst (main env)) = LogError (''Error plotting daily revenue: '' @ exn_msg e))"
proof -
  note run = main_reaches_plot [OF assms]
  have ok: "snd (main env) = Ok ()"
    by (simp add: run plot_stage_Ok)
  have kept: "files_after (fst (main env)) fs (summary_path (settings_of config) (today_str env)) =
      Some (SummaryCsv (summary_of m))"
    by (simp add: run files_after_append plot_stage_files [OF paths_differ])
  have logged: "last (fst (main env)) = LogError (''Error plotting daily revenue: '' @ exn_msg e)"
    if "snd (plot_block env (settings_of config) (table m) (today_str env)) = Raise e" for e
    by (simp add: run plot_stage_raised [OF that])
  from ok kept logged show ?thesis by simp
qed

theorem chart_failure_isolated_witness:
  "config_json env_savefig_fails = Inr Map.empty \<and>
   mkdir env_savefig_fails (OUTPUT_DIR (settings_of Map.empty)) = None \<and>
   basic_config env_savefig_fails (LOG_FILE (settings_of Map.empty)) = None \<and>
   read_csv env_savefig_fails (DATA_FILE (settings_of Map.empty))
     (DATE_COLUMN (settings_of Map.empty)) = Inr (scenario_A 1 2) \<and>
   ''revenue'' \<in> set (columns (scenario_A 1 2)) \<and> ''cost'' \<in> set (columns (scenario_A 1 2)) \<and>
   to_csv env_savefig_fails (summary_path (settings_of Map.empty) (today_str env_savefig_fails))
     = None \<and>
   snd (plot_block env_savefig_fails (settings_of Map.empty)
          (scenario_A 1 2 @ [(''profit'', [Num 60, Num 40, Num 0])]) ''20240131'') =
     Raise (Exn OSError ''disk full'') \<and>
   snd (main env_savefig_fails) = Ok () \<and> exit_status (snd (main env_savefig_fails)) = 0 \<and>
   files_after (fst (main env_savefig_fails)) Map.empty ''outputs/summary_20240131.csv'' =
     Some (SummaryCsv
       [(''Total Revenue'', 150), (''Total Cost'', 50), (''Total Profit'', 100),
        (''Profit Margin (%)'', 6667 / 100)]) \<and>
   last (fst (main env_savefig_fails)) = LogError ''Error plotting daily revenue: disk full''"
proof -
  let ?m = "\<lparr> table = scenario_A 1 2 @ [(''profit'', [Num 60, Num 40, Num 0])],
           total_revenue = 150, total_cost = 50, total_profit = 100,
           profit_margin = 2 / 3,
           summary_of =
             [(''Total Revenue'', 150), (''Total Cost'', 50), (''Total Profit'', 100),
              (''Profit Margin (%)'', 6667 / 100)] \<rparr>"
  have c: "config_json env_savefig_fails = Inr Map.empty"
    by (simp add: env_savefig_fails_def env_ok_def)
  have m: "mkdir env_savefig_fails (OUTPUT_DIR (settings_of Map.empty)) = None"
    by (simp add: env_savefig_fails_def env_ok_def)
  have b: "basic_config env_savefig_fails (LOG_FILE (settings_of Map.empty)) = None"
    by (simp add: env_savefig_fails_def env_ok_def)
  have r: "read_csv env_savefig_fails (DATA_FILE (settings_of Map.empty))
     (DATE_COLUMN (settings_of Map.empty)) = Inr (scenario_A 1 2)"
    by (simp add: env_savefig_fails_def env_ok_def)
  have cols: "''revenue'' \<in> set (columns (scenario_A 1 2))" "''cost'' \<in> set (columns (scenario_A 1 2))"
    by (simp_all add: scenario_A_def columns_def)
  have a: "aggregate (scenario_A 1 2) = Inr ?m"
    by (simp add: scenario_A_def aggregate_eval py_round_eval)
  have t: "to_csv env_savefig_fails
      (summary_path (settings_of Map.empty) (today_str env_savefig_fails)) = None"
    by (simp add: env_savefig_fails_def env_ok_def)
  have today: "today_str env_savefig_fails = ''20240131''"
    by (simp add: env_savefig_fails_def env_ok_def)
  have raised: "snd (plot_block env_savefig_fails (settings_of Map.empty)
          (scenario_A 1 2 @ [(''profit'', [Num 60, Num 40, Num 0])]) ''20240131'') =
     Raise (Exn OSError ''disk full'')"
    by (simp add: plot_block_def Let_def scenario_A_def daily_revenue_eval stmt_simps
        env_savefig_fails_def env_ok_def settings_of_empty)
  have path: "summary_path (settings_of Map.empty) ''20240131'' = ''outputs/summary_20240131.csv''"
    by (simp add: summary_path_def path_join_def anchor_def settings_of_empty)
  from chart_failure_isolated [OF c m b r cols a t, of Map.empty] raised c m b r cols t
  show ?thesis
    by (simp add: today path)
qed

text \<open>
  C10, as the script has it. Once the configuration is loaded, creating the output
  directory (with its parents, an existing one being no error) is the first effect of
  the script, before the log is set up and the data are read; when the creation does
  not raise, the directory exists at the end of the run, wherever the run ends. When
  it raises, the exception ends the script there, with exit status 1 and nothing
  done: no log is set up, no file is written, and the output directory is there
  after the run only if it was there before.
\<close>

theorem output_dir_created_first:
  assumes "config_json env = Inr config"
  shows "(mkdir env (OUTPUT_DIR (settings_of config)) = None \<longrightarrow>
            (\<exists>rest. fst (main env) = MkDir (OUTPUT_DIR (settings_of config)) True True # rest) \<and>
            OUTPUT_DIR (settings_of config) \<in> dirs_after (fst (main env)) ds) \<and>
         (\<forall>e. mkdir env (OUTPUT_DIR (settings_of config)) = Some e \<longrightarrow>
            main env = ([], Raise e) \<and> exit_status (snd (main env)) = 1 \<and>
            files_after (fst (main env)) fs = fs \<and>
            (OUTPUT_DIR (settings_of config) \<in> dirs_after (fst (main env)) ds \<longleftrightarrow>
             OUTPUT_DIR (settings_of config) \<in> ds))"
proof (intro conjI impI allI)
  fix e
  assume "mkdir env (OUTPUT_DIR (settings_of config)) = Some e"
  then have run: "main env = ([], Raise e)"
    unfolding main_def Let_def
    by (simp add: load_config_Inr [OF assms] stmt_simps)
  then show "main env = ([], Raise e)" .
  from run show "exit_status (snd (main env)) = 1" by simp
  from run show "files_after (fst (main env)) fs = fs" by simp
  from run show "OUTPUT_DIR (settings_of config) \<in> dirs_after (fst (main env)) ds \<longleftrightarrow>
      OUTPUT_DIR (settings_of config) \<in> ds" by simp
next
  assume ok: "mkdir env (OUTPUT_DIR (settings_of config)) = None"
  have "\<exists>rest. fst (main env) = MkDir (OUTPUT_DIR (settings_of config)) True True # rest"
    unfolding main_def Let_def
    by (simp add: load_config_Inr [OF assms] ok stmt_simps)
  then obtain rest where
    rest: "fst (main env) = MkDir (OUTPUT_DIR (settings_of config)) True True # rest" ..
  then show "\<exists>rest. fst (main env) = MkDir (OUTPUT_DIR (settings_of config)) True True # rest"
    by blast
  show "OUTPUT_DIR (settings_of config) \<in> dirs_after (fst (main env)) ds"
    by (simp add: rest dirs_after_mono)
qed

theorem output_dir_created_first_witness:
  "config_json env_no_data = Inr Map.empty \<and>
   mkdir env_no_data (OUTPUT_DIR (settings_of Map.empty)) = None \<and>
   main env_no_data =
     ([MkDir ''outputs'' True True, BasicConfig ''sales_analysis.log'',
       LogInfo ''Script started'',
       LogError (''Data file '' @ quoted ''sales_data.csv'' @ '' not found.'')],
      SysExit 1) \<and>
   (\<exists>rest. fst (main env_no_data) = MkDir ''outputs'' True True # rest) \<and>
   ''outputs'' \<in> dirs_after (fst (main env_no_data)) {} \<and>
   config_json env_output_is_file = Inr [''output_dir'' \<mapsto> ''config.json''] \<and>
   mkdir env_output_is_file (OUTPUT_DIR (settings_of [''output_dir'' \<mapsto> ''config.json''])) =
     Some (Exn FileExistsError ''config.json'') \<and>
   exit_status (snd (main env_output_is_file)) = 1 \<and>
   files_after (fst (main env_output_is_file)) Map.empty = Map.empty"
proof -
  have c: "config_json env_no_data = Inr Map.empty"
    by (simp add: env_no_data_def env_ok_def)
  have m: "mkdir env_no_data (OUTPUT_DIR (settings_of Map.empty)) = None"
    by (simp add: env_no_data_def env_ok_def)
  have run: "main env_no_data =
     ([MkDir ''outputs'' True True, BasicConfig ''sales_analysis.log'',
       LogInfo ''Script started'',
       LogError (''Data file '' @ quoted ''sales_data.csv'' @ '' not found.'')],
      SysExit 1)"
    by (simp add: main_def Let_def load_config_def load_data_def settings_of_empty
        env_no_data_def env_ok_def stmt_simps)
  have c': "config_json env_output_is_file = Inr [''output_dir'' \<mapsto> ''config.json'']"
    by (simp add: env_output_is_file_def env_ok_def)
  have m': "mkdir env_output_is_file
      (OUTPUT_DIR (settings_of [''output_dir'' \<mapsto> ''config.json''])) =
     Some (Exn FileExistsError ''config.json'')"
    by (simp add: env_output_is_file_def env_ok_def settings_of_def config_get_def)
  from output_dir_created_first [OF c', of "{}" Map.empty] m'
  have raised: "exit_status (snd (main env_output_is_file)) = 1 \<and>
      files_after (fst (main env_output_is_file)) Map.empty = Map.empty"
    by blast
  from output_dir_created_first [OF c, of "{}"] m c run c' m' raised show ?thesis
    by (simp add: settings_of_empty)
qed

text \<open>
  C10, as it is stated, fails when the creation itself raises: the configuration is
  loaded, the output path is a file, the script ends with the exception, and the
  directory does not exist.
\<close>

theorem output_dir_missing_counterexample:
  "config_json env_output_is_file = Inr [''output_dir'' \<mapsto> ''config.json''] \<and>
   OUTPUT_DIR (settings_of [''output_dir'' \<mapsto> ''config.json'']) = ''config.json'' \<and>
   main env_output_is_file = ([], Raise (Exn FileExistsError ''config.json'')) \<and>
   ''config.json'' \<notin> dirs_after (fst (main env_output_is_file)) {}"
proof -
  have run: "main env_output_is_file = ([], Raise (Exn FileExistsError ''config.json''))"
    by (simp add: main_def Let_def load_config_def settings_of_def config_get_def
        env_output_is_file_def env_ok_def stmt_simps)
  show ?thesis
    by (simp add: run) (simp add: env_output_is_file_def env_ok_def settings_of_def config_get_def)
qed

end
